theory Spec2Isabelle
  imports Main "HOL-Library.AList" "HOL-Library.Sublist"
begin

section \<open>JavaScript values and library functions used by the sources\<close>

text \<open>
  Exceptions are values: \<^verbatim>\<open>Error msg\<close> is a JavaScript \<^verbatim>\<open>Error\<close> carrying a message (thrown
  by the extension itself or by a collaborator), \<^verbatim>\<open>TypeError\<close> is what the engine raises when a
  property of \<^verbatim>\<open>undefined\<close> or \<^verbatim>\<open>null\<close> is read.  An \<^verbatim>\<open>async\<close> function that may reject
  returns \<open>error + 'a\<close>; \<open>ebind\<close> is \<^verbatim>\<open>await\<close> followed by the rest of the body.
\<close>

datatype error = Error string | TypeError

definition ebind :: "error + 'a \<Rightarrow> ('a \<Rightarrow> error + 'b) \<Rightarrow> error + 'b" where
  "ebind m f = (case m of Inl e \<Rightarrow> Inl e | Inr x \<Rightarrow> f x)"

text \<open>
  The backslash, which a string literal cannot hold, and the apostrophe, which it cannot hold at
  its ends.
\<close>

definition bs :: string where
  "bs = [CHR 0x5C]"

definition quote :: string where
  "quote = [CHR 0x27]"

text \<open>
  Optional string properties are \<open>string option\<close> (\<open>None\<close> is \<^verbatim>\<open>undefined\<close>).  The empty
  string is falsy, so \<^verbatim>\<open>x || d\<close> on strings takes the default \<^verbatim>\<open>d\<close> for \<^verbatim>\<open>undefined\<close>
  and for \<^verbatim>\<open>''\<close>.
\<close>

definition truthy :: "string option \<Rightarrow> bool" where
  "truthy x = (case x of None \<Rightarrow> False | Some s \<Rightarrow> s \<noteq> [])"

definition str_or :: "string option \<Rightarrow> string \<Rightarrow> string" where
  "str_or x d = (case x of None \<Rightarrow> d | Some s \<Rightarrow> if s = [] then d else s)"

text \<open>
  Strings are lists of characters; a character is a UTF-16 code unit below 256, that is a
  character of ASCII or of the Latin-1 supplement.  \<open>upper_letters\<close> are the characters
  that \<^verbatim>\<open>toLowerCase\<close> changes, \<^verbatim>\<open>A\<close>..\<^verbatim>\<open>Z\<close> and the capital letters U+00C0..U+00DE
  (U+00D7, the multiplication sign, is none); \<open>lower_letters\<close> are their lower-case
  forms, 32 code units further on.
\<close>

definition upper_letters :: string where
  "upper_letters =
     ''ABCDEFGHIJKLMNOPQRSTUVWXYZ'' @
     [CHR 0xC0, CHR 0xC1, CHR 0xC2, CHR 0xC3, CHR 0xC4, CHR 0xC5, CHR 0xC6, CHR 0xC7,
      CHR 0xC8, CHR 0xC9, CHR 0xCA, CHR 0xCB, CHR 0xCC, CHR 0xCD, CHR 0xCE, CHR 0xCF,
      CHR 0xD0, CHR 0xD1, CHR 0xD2, CHR 0xD3, CHR 0xD4, CHR 0xD5, CHR 0xD6, CHR 0xD8,
      CHR 0xD9, CHR 0xDA, CHR 0xDB, CHR 0xDC, CHR 0xDD, CHR 0xDE]"

definition lower_letters :: string where
  "lower_letters =
     ''abcdefghijklmnopqrstuvwxyz'' @
     [CHR 0xE0, CHR 0xE1, CHR 0xE2, CHR 0xE3, CHR 0xE4, CHR 0xE5, CHR 0xE6, CHR 0xE7,
      CHR 0xE8, CHR 0xE9, CHR 0xEA, CHR 0xEB, CHR 0xEC, CHR 0xED, CHR 0xEE, CHR 0xEF,
      CHR 0xF0, CHR 0xF1, CHR 0xF2, CHR 0xF3, CHR 0xF4, CHR 0xF5, CHR 0xF6, CHR 0xF8,
      CHR 0xF9, CHR 0xFA, CHR 0xFB, CHR 0xFC, CHR 0xFD, CHR 0xFE]"

text \<open>
  A regular expression with the \<^verbatim>\<open>i\<close> flag (and no \<^verbatim>\<open>u\<close> flag) compares characters
  after \<^verbatim>\<open>Canonicalize\<close>, which takes the upper-case form of a character when that is a
  single code unit and never maps a character outside ASCII to one inside.  The upper-case
  forms of U+00B5 and U+00FF lie above U+00FF and are the form of no other character below
  256, and U+00DF has a two-letter upper-case form and is kept; these three stand for
  themselves.  \<open>regex_test_ci pat s\<close> is \<^verbatim>\<open>/pat/i.test(s)\<close> for a pattern \<open>pat\<close>
  without metacharacters: the pattern occurs somewhere in \<open>s\<close>, letter case ignored.
\<close>

definition canonicalize :: "char \<Rightarrow> char" where
  "canonicalize c = (case map_of (zip lower_letters upper_letters) c of Some u \<Rightarrow> u | None \<Rightarrow> c)"

definition toLowerCase :: "string \<Rightarrow> string" where
  "toLowerCase s =
     map (\<lambda>c. case map_of (zip upper_letters lower_letters) c of Some l \<Rightarrow> l | None \<Rightarrow> c) s"

fun match_here_ci :: "string \<Rightarrow> string \<Rightarrow> bool" where
  "match_here_ci [] s = True"
| "match_here_ci (p # ps) [] = False"
| "match_here_ci (p # ps) (c # cs) =
     (if canonicalize p = canonicalize c then match_here_ci ps cs else False)"

fun regex_test_ci :: "string \<Rightarrow> string \<Rightarrow> bool" where
  "regex_test_ci pat [] = match_here_ci pat []"
| "regex_test_ci pat (c # cs) = (if match_here_ci pat (c # cs) then True else regex_test_ci pat cs)"

text \<open>
  In the words of the specification: \<open>s\<close> contains the token \<open>tok\<close> in some character
  case when a stretch of \<open>s\<close> equals \<open>tok\<close> up to the case of its letters.
\<close>

definition contains_token_ci :: "string \<Rightarrow> string \<Rightarrow> bool" where
  "contains_token_ci tok s \<longleftrightarrow>
     (\<exists>pre t post. s = pre @ t @ post \<and> map canonicalize t = map canonicalize tok)"

text \<open>
  \<^verbatim>\<open>s.replace(/pat/gi, rep)\<close> for a non-empty pattern without metacharacters: every occurrence,
  found left to right and not overlapping, is replaced.  In the replacement text \<^verbatim>\<open>$$\<close>
  stands for \<^verbatim>\<open>$\<close>, \<^verbatim>\<open>$&\<close> for the matched text, and the text before and after the match
  is inserted by \<^verbatim>\<open>$`\<close> and \<^verbatim>\<open>$'\<close>; the pattern has no capture groups, so every other use
  of \<^verbatim>\<open>$\<close> is literal.
\<close>

fun getSubstitution :: "string \<Rightarrow> string \<Rightarrow> string \<Rightarrow> string \<Rightarrow> string" where
  "getSubstitution matched preceding following [] = []"
| "getSubstitution matched preceding following [c] = [c]"
| "getSubstitution matched preceding following (c # d # cs) =
     (if c = CHR ''$'' \<and> d = CHR ''$'' then CHR ''$'' # getSubstitution matched preceding following cs
      else if c = CHR ''$'' \<and> d = CHR ''&'' then matched @ getSubstitution matched preceding following cs
      else if c = CHR ''$'' \<and> d = CHR 0x60 then preceding @ getSubstitution matched preceding following cs
      else if c = CHR ''$'' \<and> d = CHR 0x27 then following @ getSubstitution matched preceding following cs
      else c # getSubstitution matched preceding following (d # cs))"

fun replace_all_from :: "string \<Rightarrow> string \<Rightarrow> string \<Rightarrow> nat \<Rightarrow> string \<Rightarrow> string" where
  "replace_all_from pat rep whole skip [] = []"
| "replace_all_from pat rep whole skip (c # cs) =
     (if 0 < skip then replace_all_from pat rep whole (skip - 1) cs
      else if pat \<noteq> [] \<and> match_here_ci pat (c # cs) then
        getSubstitution (take (length pat) (c # cs))
          (take (length whole - length (c # cs)) whole)
          (drop (length pat) (c # cs)) rep
        @ replace_all_from pat rep whole (length pat - 1) cs
      else c # replace_all_from pat rep whole 0 cs)"

definition replace_all_ci :: "string \<Rightarrow> string \<Rightarrow> string \<Rightarrow> string" where
  "replace_all_ci pat rep s = replace_all_from pat rep s 0 s"

text \<open>
  \<^verbatim>\<open>s.replace(/\s/i, '')\<close> has no \<^verbatim>\<open>g\<close> flag: it removes the first white-space character
  only.  Below 256 the class \<^verbatim>\<open>\s\<close> holds tab, line feed, vertical tab, form feed, carriage
  return, space and the no-break space U+00A0.
\<close>

definition isWhiteSpace :: "char \<Rightarrow> bool" where
  "isWhiteSpace c \<longleftrightarrow>
     c \<in> set [CHR 0x09, CHR 0x0A, CHR 0x0B, CHR 0x0C, CHR 0x0D, CHR '' '', CHR 0xA0]"

fun remove_first_whitespace :: "string \<Rightarrow> string" where
  "remove_first_whitespace [] = []"
| "remove_first_whitespace (c # cs) = (if isWhiteSpace c then cs else c # remove_first_whitespace cs)"

text \<open>
  A parsed JSON document.  An object is the list of its properties in enumeration order, with
  distinct keys.  Numbers are carried as integers: the sources only test a number for
  truthiness and search its decimal rendering, and there a fractional number behaves as a
  non-zero integer does.
\<close>

datatype json =
  JNull
| JBool bool
| JNum int
| JStr string
| JArr "json list"
| JObj "(string \<times> json) list"

fun js_truthy :: "json \<Rightarrow> bool" where
  "js_truthy JNull = False"
| "js_truthy (JBool b) = b"
| "js_truthy (JNum n) = (n \<noteq> 0)"
| "js_truthy (JStr s) = (s \<noteq> [])"
| "js_truthy (JArr _) = True"
| "js_truthy (JObj _) = True"

text \<open>
  \<^verbatim>\<open>v.key\<close> for one of the keys the sources read (\<^verbatim>\<open>profiles\<close>, \<^verbatim>\<open>commandName\<close>,
  \<^verbatim>\<open>applicationUrl\<close>): reading a property of \<^verbatim>\<open>null\<close> raises, an object yields the property
  or \<^verbatim>\<open>undefined\<close> (\<open>None\<close>), and no other value has such a property.
\<close>

fun js_get :: "json \<Rightarrow> string \<Rightarrow> error + json option" where
  "js_get JNull key = Inl TypeError"
| "js_get (JObj kvs) key = Inr (map_of kvs key)"
| "js_get _ key = Inr None"

text \<open>\<^verbatim>\<open>Object.values(v)\<close> for a truthy \<open>v\<close>.\<close>

fun object_values :: "json \<Rightarrow> json list" where
  "object_values (JObj kvs) = map snd kvs"
| "object_values (JArr xs) = xs"
| "object_values (JStr s) = map (\<lambda>c. JStr [c]) s"
| "object_values _ = []"

text \<open>\<^verbatim>\<open>String(v)\<close>, the conversion \<^verbatim>\<open>RegExp.prototype.test\<close> applies to its argument.\<close>

fun digits :: "nat \<Rightarrow> string" where
  "digits n = (if n < 10 then [''0123456789'' ! n] else digits (n div 10) @ [''0123456789'' ! (n mod 10)])"

fun intercalate :: "string \<Rightarrow> string list \<Rightarrow> string" where
  "intercalate sep [] = []"
| "intercalate sep [x] = x"
| "intercalate sep (x # y # ys) = x @ sep @ intercalate sep (y # ys)"

fun js_ToString :: "json \<Rightarrow> string" where
  "js_ToString JNull = ''null''"
| "js_ToString (JBool b) = (if b then ''true'' else ''false'')"
| "js_ToString (JNum n) = (if n < 0 then CHR ''-'' # digits (nat (- n)) else digits (nat n))"
| "js_ToString (JStr s) = s"
| "js_ToString (JArr xs) = intercalate '','' (map (\<lambda>x. if x = JNull then [] else js_ToString x) xs)"
| "js_ToString (JObj _) = ''[object Object]''"

section \<open>Volume and port lists\<close>

text \<open>
  \<^verbatim>\<open>DockerContainerVolume\<close> and \<^verbatim>\<open>DockerContainerPort\<close>: a volume maps a host path to a
  container path with an optional permission mode (\<^verbatim>\<open>'ro' | 'rw'\<close>); a port maps a container
  port to an optional host port.  The lists are JavaScript arrays, mutated in place by
  \<^verbatim>\<open>push\<close>; the model returns the array after the call together with the function's result.
\<close>

datatype permission = RO | RW

record DockerContainerVolume =
  localPath :: string
  containerPath :: string
  permissions :: "permission option"

record DockerContainerPort =
  hostPort :: "int option"
  containerPort :: int

text \<open>
  \<^verbatim>\<open>NetCoreTaskHelper.addVolumeWithoutConflicts\<close>:
  \<^verbatim>\<open>if (volumes.find(v => v.containerPath === volume.containerPath)) return false;
  volumes.push(volume); return true;\<close>
  The value found is an object, hence truthy, so the test is whether \<^verbatim>\<open>find\<close> succeeds.
\<close>

definition addVolumeWithoutConflicts ::
  "DockerContainerVolume list \<Rightarrow> DockerContainerVolume \<Rightarrow> DockerContainerVolume list \<times> bool" where
  "addVolumeWithoutConflicts volumes volume =
     (case find (\<lambda>v. containerPath v = containerPath volume) volumes of
        Some _ \<Rightarrow> (volumes, False)
      | None \<Rightarrow> (volumes @ [volume], True))"

text \<open>
  Modelled from the spec: \<^verbatim>\<open>addPortWithoutConflicts\<close> is imported by
  \<^verbatim>\<open>PythonTaskHelper.ts\<close> from \<^verbatim>\<open>TaskHelper.ts\<close>, which is not among the sources.  The
  specification describes port lists as ordered sequences deduplicated by the container-side port,
  merged with first-write-wins semantics per key, exactly as volume lists are by container path.
\<close>

definition addPortWithoutConflicts ::
  "DockerContainerPort list \<Rightarrow> DockerContainerPort \<Rightarrow> DockerContainerPort list \<times> bool" where
  "addPortWithoutConflicts ports port =
     (case find (\<lambda>p. containerPort p = containerPort port) ports of
        Some _ \<Rightarrow> (ports, False)
      | None \<Rightarrow> (ports @ [port], True))"

text \<open>
  \<^verbatim>\<open>PythonTaskHelper.inferPorts\<close>: the user's ports are added one by one to an empty array,
  then the debugger port 5678; every addition goes through \<^verbatim>\<open>addPortWithoutConflicts\<close>.
\<close>

definition inferPorts :: "DockerContainerPort list option \<Rightarrow> DockerContainerPort list" where
  "inferPorts runPorts =
     (let ports = (case runPorts of
                     None \<Rightarrow> []
                   | Some ps \<Rightarrow> foldl (\<lambda>acc port. fst (addPortWithoutConflicts acc port)) [] ps);
          dbgPort = \<lparr>hostPort = Some 5678, containerPort = 5678\<rparr>
      in fst (addPortWithoutConflicts ports dbgPort))"

section \<open>Ambient environment\<close>

text \<open>
  What the sources read from outside: Node's \<^verbatim>\<open>path\<close> and \<^verbatim>\<open>os\<close> modules and
  \<^verbatim>\<open>process.env\<close> (their results depend on the host platform), the file system as
  \<^verbatim>\<open>fs-extra\<close> shows it, and helpers of the extension that are not among the sources
  (\<^verbatim>\<open>quickPickProjectFileItem\<close>, \<^verbatim>\<open>resolveFilePath\<close>, \<^verbatim>\<open>unresolveFilePath\<close>,
  \<^verbatim>\<open>NetCoreDebugHelper.getHostDebuggerPathBase\<close>,
  \<^verbatim>\<open>LocalAspNetCoreSslManager.getHostSecretsFolders\<close> and
  \<^verbatim>\<open>getContainerSecretsFolders\<close>).  They are parameters of the model: a \<open>host\<close> fixes the
  workspace state, and every function below takes it as its first argument.
  \<open>path_parse_name p\<close> is \<^verbatim>\<open>path.parse(p).name\<close>; \<open>path_join\<close> takes the list of its
  arguments.  A file-system call that rejects returns \<open>Inl\<close>.
\<close>

datatype PlatformOS = Windows | Linux

datatype node_platform = win32 | darwin | other_platform

record WorkspaceFolder =
  folder_name :: string
  fsPath :: string

record SecretsFolders =
  userSecretsFolder :: string
  certificateFolder :: string

record host =
  path_dirname :: "string \<Rightarrow> string"
  path_join :: "string list \<Rightarrow> string"
  path_parse_name :: "string \<Rightarrow> string"
  path_extname :: "string \<Rightarrow> string"
  path_normalize :: "string \<Rightarrow> string"
  path_relative :: "string \<Rightarrow> string \<Rightarrow> string"
  os_platform :: node_platform
  os_homedir :: string
  env_ProgramFiles :: "string option"
  pathExists :: "string \<Rightarrow> bool"
  readFile :: "string \<Rightarrow> error + string"
  readJson :: "string \<Rightarrow> error + json"
  quickPickProjectFileItem :: "WorkspaceFolder \<Rightarrow> string \<Rightarrow> error + string"
  resolveFilePath :: "string \<Rightarrow> WorkspaceFolder \<Rightarrow> string"
  unresolveFilePath :: "string \<Rightarrow> WorkspaceFolder \<Rightarrow> string"
  getHostDebuggerPathBase :: string
  getHostSecretsFolders :: SecretsFolders
  getContainerSecretsFolders :: "PlatformOS option \<Rightarrow> SecretsFolders"

section \<open>The .NET Core task helper (\<^verbatim>\<open>tasks/netcore/NetCoreTaskHelper.ts\<close>)\<close>

text \<open>
  Option records.  An object-valued property (\<^verbatim>\<open>{ [key: string]: string }\<close>) is an association
  list in property order; assigning a property replaces the value of an existing key in place
  and appends a new key (\<open>AList.update\<close>).  Field names carry the record's prefix, because
  build and run options share property names.
\<close>

record NetCoreTaskOptions =
  appProject :: "string option"
  configureSsl :: "bool option"

record DockerBuildOptions =
  build_args :: "(string \<times> string) list option"
  build_context :: "string option"
  build_dockerfile :: "string option"
  build_labels :: "(string \<times> string) list option"
  build_tag :: "string option"
  build_target :: "string option"
  build_pull :: "bool option"

record DockerRunOptions =
  run_command :: "string option"
  run_containerName :: "string option"
  run_entrypoint :: "string option"
  run_env :: "(string \<times> string) list option"
  run_envFiles :: "string list option"
  run_extraHosts :: "(string \<times> string) list option"
  run_image :: "string option"
  run_labels :: "(string \<times> string) list option"
  run_network :: "string option"
  run_networkAlias :: "string option"
  run_os :: "PlatformOS option"
  run_ports :: "DockerContainerPort list option"
  run_volumes :: "DockerContainerVolume list option"

text \<open>
  \<^verbatim>\<open>TaskCache\<close> comes from \<^verbatim>\<open>TaskHelper.ts\<close>, which is not among the sources.  By its use
  it is a store of property bags keyed by the project path: \<^verbatim>\<open>get\<close> returns the bag or
  \<^verbatim>\<open>undefined\<close>, \<^verbatim>\<open>set\<close> stores a bag, \<^verbatim>\<open>update\<close> merges properties into the stored bag.
  The helper methods take the cache and return it updated.
\<close>

record cache_entry =
  cache_image :: "string option"
  cache_configureSsl :: "bool option"
  cache_containerName :: "string option"
  cache_os :: "PlatformOS option"

type_synonym TaskCache = "string \<Rightarrow> cache_entry option"


definition TaskCache_update_run ::
  "string \<Rightarrow> bool \<Rightarrow> string option \<Rightarrow> PlatformOS option \<Rightarrow> TaskCache \<Rightarrow> TaskCache" where
  "TaskCache_update_run key ssl cname os tc =
     (let old = (case tc key of
                   None \<Rightarrow> \<lparr>cache_image = None, cache_configureSsl = None,
                             cache_containerName = None, cache_os = None\<rparr>
                 | Some e \<Rightarrow> e)
      in tc(key \<mapsto> old\<lparr>cache_configureSsl := Some ssl, cache_containerName := cname,
                           cache_os := os\<rparr>))"

definition defaultLabels :: "(string \<times> string) list" where
  "defaultLabels = [(''com.microsoft.created-by'', ''visual-studio-code'')]"

definition MacNuGetPackageFallbackFolderPath :: string where
  "MacNuGetPackageFallbackFolderPath = ''/usr/local/share/dotnet/sdk/NuGetFallbackFolder''"

definition LinuxNuGetPackageFallbackFolderPath :: string where
  "LinuxNuGetPackageFallbackFolderPath = ''/usr/share/dotnet/sdk/NuGetFallbackFolder''"

text \<open>\<^verbatim>\<open>const UserSecretsRegex = /UserSecretsId/i\<close>, applied with \<^verbatim>\<open>test\<close>.\<close>

definition UserSecretsRegex_test :: "string \<Rightarrow> bool" where
  "UserSecretsRegex_test contents = regex_test_ci ''UserSecretsId'' contents"

text \<open>\<^verbatim>\<open>folderPath.replace(/\$\{workspaceFolder\}/gi, folder.uri.fsPath)\<close>\<close>

definition resolveWorkspaceFolderPath :: "WorkspaceFolder \<Rightarrow> string \<Rightarrow> string" where
  "resolveWorkspaceFolderPath folder folderPath =
     replace_all_ci ''${workspaceFolder}'' (fsPath folder) folderPath"

text \<open>
  \<^verbatim>\<open>inferAppProject\<close>: the user's property when it is set (and not empty), with the workspace
  folder substituted; otherwise the project file picked in the folder, or the picker's error.
\<close>

definition inferAppProject :: "host \<Rightarrow> WorkspaceFolder \<Rightarrow> NetCoreTaskOptions \<Rightarrow> error + string" where
  "inferAppProject h folder helperOptions =
     (if truthy (appProject helperOptions)
      then Inr (resolveWorkspaceFolderPath folder (the (appProject helperOptions)))
      else quickPickProjectFileItem h folder
             (''The 'netCore.appProject' in the Docker task definition is undefined or does not exist. '' @
              ''Ensure that the property is set to the appropriate .NET Core project.''))"

text \<open>
  \<^verbatim>\<open>path.parse(helperOptions.appProject).name.replace(/\s/i, '').toLowerCase()\<close>;
  \<^verbatim>\<open>path.parse(undefined)\<close> raises.
\<close>

definition inferAppName :: "host \<Rightarrow> WorkspaceFolder \<Rightarrow> NetCoreTaskOptions \<Rightarrow> error + string" where
  "inferAppName h folder helperOptions =
     (case appProject helperOptions of
        None \<Rightarrow> Inl TypeError
      | Some p \<Rightarrow> Inr (toLowerCase (remove_first_whitespace (path_parse_name h p))))"

text \<open>
  \<^verbatim>\<open>inferSsl\<close>.  \<open>find_project_profile\<close> is
  \<^verbatim>\<open>Object.values(profiles).find(p => p.commandName === 'Project')\<close>; \<open>inferSsl_try\<close> is the
  body of the \<^verbatim>\<open>try\<close> block, \<open>Inr True\<close> when it executes \<^verbatim>\<open>return true\<close> and \<open>Inr False\<close>
  when it runs to its end; \<open>inferSsl\<close> adds the empty \<^verbatim>\<open>catch\<close> and the final
  \<^verbatim>\<open>return false\<close>.
\<close>

fun find_project_profile :: "json list \<Rightarrow> error + json option" where
  "find_project_profile [] = Inr None"
| "find_project_profile (p # ps) =
     ebind (js_get p ''commandName'')
       (\<lambda>c. if c = Some (JStr ''Project'') then Inr (Some p) else find_project_profile ps)"

definition launchSettings_has_https :: "json \<Rightarrow> error + bool" where
  "launchSettings_has_https launchSettings =
     (if \<not> js_truthy launchSettings then Inr False
      else ebind (js_get launchSettings ''profiles'')
        (\<lambda>profiles.
           case profiles of
             None \<Rightarrow> Inr False
           | Some ps \<Rightarrow>
               if \<not> js_truthy ps then Inr False
               else ebind (find_project_profile (object_values ps))
                 (\<lambda>projectProfile.
                    case projectProfile of
                      None \<Rightarrow> Inr False
                    | Some pp \<Rightarrow>
                        if \<not> js_truthy pp then Inr False
                        else ebind (js_get pp ''applicationUrl'')
                          (\<lambda>applicationUrl.
                             case applicationUrl of
                               None \<Rightarrow> Inr False
                             | Some url \<Rightarrow>
                                 Inr (js_truthy url \<and>
                                      regex_test_ci ''https://'' (js_ToString url))))))"

definition inferSsl_try :: "host \<Rightarrow> WorkspaceFolder \<Rightarrow> NetCoreTaskOptions \<Rightarrow> error + bool" where
  "inferSsl_try h folder helperOptions =
     (case appProject helperOptions of
        None \<Rightarrow> Inl TypeError
      | Some p \<Rightarrow>
          (let launchSettingsPath = path_join h [path_dirname h p, ''Properties'', ''launchSettings.json'']
           in if pathExists h launchSettingsPath
              then ebind (readJson h launchSettingsPath) launchSettings_has_https
              else Inr False))"

definition inferSsl :: "host \<Rightarrow> WorkspaceFolder \<Rightarrow> NetCoreTaskOptions \<Rightarrow> error + bool" where
  "inferSsl h folder helperOptions =
     (case inferSsl_try h folder helperOptions of
        Inr True \<Rightarrow> Inr True
      | Inr False \<Rightarrow> Inr False
      | Inl _ \<Rightarrow> Inr False)"

text \<open>
  \<^verbatim>\<open>inferUserSecrets\<close>: the project file is read (a failure to read it propagates) and
  searched for \<^verbatim>\<open>UserSecretsId\<close>.
\<close>

definition inferUserSecrets :: "host \<Rightarrow> WorkspaceFolder \<Rightarrow> NetCoreTaskOptions \<Rightarrow> error + bool" where
  "inferUserSecrets h folder helperOptions =
     (case appProject helperOptions of
        None \<Rightarrow> Inl TypeError
      | Some p \<Rightarrow> ebind (readFile h p) (\<lambda>contents. Inr (UserSecretsRegex_test contents)))"

text \<open>
  \<^verbatim>\<open>inferVolumes\<close>: the user's volumes first, then the application, source, debugger and
  NuGet volumes, then the secrets volumes when user secrets or SSL are configured; each is added
  with \<^verbatim>\<open>addVolumeWithoutConflicts\<close>.  On Windows hosts a missing \<^verbatim>\<open>ProgramFiles\<close> variable
  is an error.
\<close>

definition inferVolumes ::
  "host \<Rightarrow> WorkspaceFolder \<Rightarrow> DockerRunOptions \<Rightarrow> NetCoreTaskOptions \<Rightarrow> bool \<Rightarrow> bool \<Rightarrow>
     error + DockerContainerVolume list" where
  "inferVolumes h folder runOptions helperOptions ssl userSecrets =
     (let add = (\<lambda>volumes volume. fst (addVolumeWithoutConflicts volumes volume));
          win = (run_os runOptions = Some Windows);
          volumes = (case run_volumes runOptions of None \<Rightarrow> [] | Some vs \<Rightarrow> foldl add [] vs)
      in case appProject helperOptions of
           None \<Rightarrow> Inl TypeError
         | Some p \<Rightarrow>
           (let appVolume = \<lparr>localPath = path_dirname h p,
                             containerPath = (if win then ''C:'' @ bs @ ''app'' else ''/app''),
                             permissions = Some RW\<rparr>;
                srcVolume = \<lparr>localPath = fsPath folder,
                             containerPath = (if win then ''C:'' @ bs @ ''src'' else ''/src''),
                             permissions = Some RW\<rparr>;
                debuggerVolume = \<lparr>localPath = getHostDebuggerPathBase h,
                                  containerPath = (if win then ''C:'' @ bs @ ''remote_debugger'' else ''/remote_debugger''),
                                  permissions = Some RO\<rparr>;
                nugetVolume = \<lparr>localPath = path_join h [os_homedir h, ''.nuget'', ''packages''],
                               containerPath = (if win then ''C:'' @ bs @ ''.nuget'' @ bs @ ''packages'' else ''/root/.nuget/packages''),
                               permissions = Some RO\<rparr>
            in if os_platform h = win32 \<and> env_ProgramFiles h = None
               then Inl (Error (''The environment variable 'ProgramFiles' is not defined. '' @
                                ''This variable is used to locate the NuGet fallback folder.''))
               else
                (let nugetFallbackVolume =
                       \<lparr>localPath =
                          (if os_platform h = win32
                           then path_join h [the (env_ProgramFiles h), ''dotnet'', ''sdk'', ''NuGetFallbackFolder'']
                           else if os_platform h = darwin then MacNuGetPackageFallbackFolderPath
                           else LinuxNuGetPackageFallbackFolderPath),
                        containerPath = (if win then ''C:'' @ bs @ ''.nuget'' @ bs @ ''fallbackpackages''
                                         else ''/root/.nuget/fallbackpackages''),
                        permissions = Some RO\<rparr>;
                     volumes = add volumes appVolume;
                     volumes = add volumes srcVolume;
                     volumes = add volumes debuggerVolume;
                     volumes = add volumes nugetVolume;
                     volumes = add volumes nugetFallbackVolume
                 in if userSecrets \<or> ssl
                    then
                     (let hostSecretsFolders = getHostSecretsFolders h;
                          containerSecretsFolders = getContainerSecretsFolders h (run_os runOptions);
                          userSecretsVolume = \<lparr>localPath = userSecretsFolder hostSecretsFolders,
                                               containerPath = userSecretsFolder containerSecretsFolders,
                                               permissions = Some RO\<rparr>;
                          volumes = add volumes userSecretsVolume
                      in if ssl
                         then Inr (add volumes
                                     \<lparr>localPath = certificateFolder hostSecretsFolders,
                                      containerPath = certificateFolder containerSecretsFolders,
                                      permissions = Some RO\<rparr>)
                         else Inr volumes)
                    else Inr volumes)))"


text \<open>
  \<^verbatim>\<open>resolveDockerRunOptions\<close>, in three parts.  \<open>resolveDockerRunOptions_defaults\<close> is
  the block of assignments that fill in the container name, the labels, the target OS, the
  image, the entry point and the command, in the order of the source.  The two assignments
  \<^verbatim>\<open>runOptions.entrypoint = runOptions.entrypoint || runOptions.os === 'Windows' ? 'ping' : 'tail';\<close>
  \<^verbatim>\<open>runOptions.command = runOptions.command || runOptions.os === 'Windows' ? '-t localhost' : '-f /dev/null';\<close>
  parse as \<^verbatim>\<open>(a || b) ? c : d\<close>, since \<^verbatim>\<open>||\<close> binds tighter than the conditional operator:
  the condition is "the field is truthy or the target is Windows".
\<close>

definition resolveDockerRunOptions_defaults ::
  "string \<Rightarrow> cache_entry option \<Rightarrow> DockerRunOptions \<Rightarrow> DockerRunOptions" where
  "resolveDockerRunOptions_defaults appName cache runOptions =
     (let runOptions = runOptions
            \<lparr>run_containerName := Some (str_or (run_containerName runOptions) (appName @ ''-dev''))\<rparr>;
          runOptions = runOptions
            \<lparr>run_labels := Some (case run_labels runOptions of
                                   None \<Rightarrow> defaultLabels
                                 | Some l \<Rightarrow> l)\<rparr>;
          runOptions = runOptions
            \<lparr>run_os := Some (case run_os runOptions of None \<Rightarrow> Linux | Some os \<Rightarrow> os)\<rparr>;
          runOptions = runOptions
            \<lparr>run_image := Some (str_or (run_image runOptions)
                                  (str_or (case cache of None \<Rightarrow> None | Some c \<Rightarrow> cache_image c)
                                          (appName @ '':dev'')))\<rparr>;
          runOptions = runOptions
            \<lparr>run_entrypoint :=
               Some (if truthy (run_entrypoint runOptions) \<or> run_os runOptions = Some Windows
                     then ''ping'' else ''tail'')\<rparr>;
          runOptions = runOptions
            \<lparr>run_command :=
               Some (if truthy (run_command runOptions) \<or> run_os runOptions = Some Windows
                     then ''-t localhost'' else ''-f /dev/null'')\<rparr>
      in runOptions)"

text \<open>
  \<open>resolveDockerRunOptions_env\<close> is the block guarded by \<^verbatim>\<open>if (userSecrets)\<close>, which sets
  the ASP.NET Core environment variables that are not set yet.
\<close>

definition resolveDockerRunOptions_env :: "bool \<Rightarrow> bool \<Rightarrow> DockerRunOptions \<Rightarrow> DockerRunOptions" where
  "resolveDockerRunOptions_env ssl userSecrets runOptions =
     (if userSecrets
      then
       (let env = (case run_env runOptions of None \<Rightarrow> [] | Some e \<Rightarrow> e);
            env = AList.update ''ASPNETCORE_ENVIRONMENT''
                    (str_or (map_of env ''ASPNETCORE_ENVIRONMENT'') ''Development'') env;
            env = (if ssl
                   then AList.update ''ASPNETCORE_URLS''
                          (str_or (map_of env ''ASPNETCORE_URLS'') ''http://+:80;https://+:443'') env
                   else env)
        in runOptions\<lparr>run_env := Some env\<rparr>)
      else runOptions)"

text \<open>
  The constant \<^verbatim>\<open>userSecrets\<close> of \<^verbatim>\<open>resolveDockerRunOptions\<close>:
  \<^verbatim>\<open>ssl === true ? true : await this.inferUserSecrets(folder, helperOptions)\<close>.
\<close>

definition userSecrets_for :: "host \<Rightarrow> WorkspaceFolder \<Rightarrow> NetCoreTaskOptions \<Rightarrow> bool \<Rightarrow> error + bool" where
  "userSecrets_for h folder helperOptions ssl =
     (if ssl then Inr True else inferUserSecrets h folder helperOptions)"

text \<open>
  The method itself: project and application name, the defaults, SSL and user secrets, the
  environment, the volumes, and the update of the task cache.
\<close>

definition resolveDockerRunOptions ::
  "host \<Rightarrow> WorkspaceFolder \<Rightarrow> TaskCache \<Rightarrow> DockerRunOptions \<Rightarrow> NetCoreTaskOptions option \<Rightarrow>
     error + DockerRunOptions \<times> TaskCache" where
  "resolveDockerRunOptions h folder tc runOptions helperOptions0 =
     (let helperOptions = (case helperOptions0 of
                             None \<Rightarrow> \<lparr>appProject = None, configureSsl = None\<rparr>
                           | Some ho \<Rightarrow> ho)
      in ebind (inferAppProject h folder helperOptions)
        (\<lambda>project.
           let helperOptions = helperOptions\<lparr>appProject := Some project\<rparr>;
               cache = tc project
           in ebind (inferAppName h folder helperOptions)
             (\<lambda>appName.
                let runOptions = resolveDockerRunOptions_defaults appName cache runOptions
                in ebind (case configureSsl helperOptions of
                            Some b \<Rightarrow> Inr b
                          | None \<Rightarrow> inferSsl h folder helperOptions)
                  (\<lambda>ssl.
                     ebind (userSecrets_for h folder helperOptions ssl)
                       (\<lambda>userSecrets.
                          let runOptions = resolveDockerRunOptions_env ssl userSecrets runOptions
                          in ebind (inferVolumes h folder runOptions helperOptions ssl userSecrets)
                            (\<lambda>volumes.
                               let runOptions = runOptions\<lparr>run_volumes := Some volumes\<rparr>
                               in Inr (runOptions,
                                       TaskCache_update_run project ssl (run_containerName runOptions)
                                         (run_os runOptions) tc)))))))"

section \<open>A POSIX host\<close>

text \<open>
  Node's \<^verbatim>\<open>path.posix\<close> functions, for evaluating the model on concrete workspaces.
  \<open>posix_dirname\<close> skips trailing separators and cuts at the last separator left of the last
  component; \<open>posix_parse_name\<close> and \<open>posix_extname\<close> split the last component at its last
  dot, unless that dot is its first character or the component is \<^verbatim>\<open>..\<close> (but
  \<^verbatim>\<open>path.parse\<close> looks for the component right of the root only, and of \<^verbatim>\<open>..\<close> directly
  under the root it reports the name \<^verbatim>\<open>.\<close>);
  \<open>posix_normalize\<close> drops empty and \<^verbatim>\<open>.\<close> components and resolves \<^verbatim>\<open>..\<close>;
  \<open>posix_join\<close> joins the non-empty arguments with \<^verbatim>\<open>/\<close> and normalizes.
  \<open>posix_relative\<close> is \<^verbatim>\<open>path.relative\<close> for two absolute paths.
\<close>

fun split_on :: "char \<Rightarrow> string \<Rightarrow> string list" where
  "split_on c [] = [[]]"
| "split_on c (x # xs) =
     (if x = c then [] # split_on c xs
      else (case split_on c xs of [] \<Rightarrow> [[x]] | y # ys \<Rightarrow> (x # y) # ys))"

definition posix_dirname :: "string \<Rightarrow> string" where
  "posix_dirname p =
     (if p = [] then ''.''
      else
       (let hasRoot = (hd p = CHR ''/'');
            rest = dropWhile (\<lambda>c. c \<noteq> CHR ''/'') (dropWhile (\<lambda>c. c = CHR ''/'') (rev (tl p)));
            endIndex = length rest
        in if rest = [] then (if hasRoot then ''/'' else ''.'')
           else if hasRoot \<and> endIndex = 1 then ''//''
           else take endIndex p))"

definition posix_base :: "string \<Rightarrow> string" where
  "posix_base p =
     rev (takeWhile (\<lambda>c. c \<noteq> CHR ''/'') (dropWhile (\<lambda>c. c = CHR ''/'') (rev p)))"

definition posix_ext_start :: "string \<Rightarrow> nat option" where
  "posix_ext_start base =
     (let afterDot = takeWhile (\<lambda>c. c \<noteq> CHR ''.'') (rev base);
          startDot = length base - length afterDot - 1
      in if CHR ''.'' \<notin> set base \<or> startDot = 0 \<or> base = ''..'' then None else Some startDot)"

definition posix_parse_name :: "string \<Rightarrow> string" where
  "posix_parse_name p =
     (let base = posix_base p
      in if base = ''..'' \<and> hd p = CHR ''/'' \<and>
            CHR ''/'' \<notin> set (dropWhile (\<lambda>c. c = CHR ''/'') (rev (tl p)))
         then ''.''
         else case posix_ext_start base of None \<Rightarrow> base | Some i \<Rightarrow> take i base)"

definition posix_extname :: "string \<Rightarrow> string" where
  "posix_extname p =
     (let base = posix_base p
      in case posix_ext_start base of None \<Rightarrow> [] | Some i \<Rightarrow> drop i base)"

definition normalize_step :: "bool \<Rightarrow> string list \<Rightarrow> string \<Rightarrow> string list" where
  "normalize_step allowAboveRoot stack seg =
     (if seg = [] \<or> seg = ''.'' then stack
      else if seg = ''..'' then
        (case stack of
           t # ts \<Rightarrow> if t \<noteq> ''..'' then ts else if allowAboveRoot then ''..'' # stack else stack
         | [] \<Rightarrow> if allowAboveRoot then [''..''] else [])
      else seg # stack)"

definition posix_normalize :: "string \<Rightarrow> string" where
  "posix_normalize p =
     (if p = [] then ''.''
      else
       (let isAbsolute = (hd p = CHR ''/'');
            trailingSeparator = (last p = CHR ''/'');
            body = intercalate ''/''
                     (rev (foldl (normalize_step (\<not> isAbsolute)) [] (split_on CHR ''/'' p)))
        in if body = [] then (if isAbsolute then ''/'' else if trailingSeparator then ''./'' else ''.'')
           else (if isAbsolute then ''/'' else []) @ body @ (if trailingSeparator then ''/'' else [])))"

definition posix_join :: "string list \<Rightarrow> string" where
  "posix_join args =
     (let joined = intercalate ''/'' (filter (\<lambda>a. a \<noteq> []) args)
      in if joined = [] then ''.'' else posix_normalize joined)"

fun strip_common :: "string list \<Rightarrow> string list \<Rightarrow> string list \<times> string list" where
  "strip_common (x # xs) (y # ys) = (if x = y then strip_common xs ys else (x # xs, y # ys))"
| "strip_common xs ys = (xs, ys)"

definition posix_relative :: "string \<Rightarrow> string \<Rightarrow> string" where
  "posix_relative from to =
     (let segs = (\<lambda>p. filter (\<lambda>s. s \<noteq> []) (split_on CHR ''/'' (posix_normalize p)));
          (up, down) = strip_common (segs from) (segs to)
      in intercalate ''/'' (map (\<lambda>_. ''..'') up @ down))"

text \<open>
  \<open>posix_host files jsons projects\<close> is a Linux workstation: \<open>files\<close> lists the readable
  files with their contents, \<open>jsons\<close> the files that parse as JSON with their values, and
  \<open>projects\<close> the project file the picker returns for a folder (by its path).
\<close>

definition posix_host ::
  "(string \<times> string) list \<Rightarrow> (string \<times> json) list \<Rightarrow> (string \<times> string) list \<Rightarrow> host" where
  "posix_host files jsons projects =
     \<lparr>path_dirname = posix_dirname,
      path_join = posix_join,
      path_parse_name = posix_parse_name,
      path_extname = posix_extname,
      path_normalize = posix_normalize,
      path_relative = posix_relative,
      os_platform = other_platform,
      os_homedir = ''/home/me'',
      env_ProgramFiles = None,
      pathExists = (\<lambda>p. map_of files p \<noteq> None \<or> map_of jsons p \<noteq> None),
      readFile = (\<lambda>p. case map_of files p of
                         None \<Rightarrow> Inl (Error (''ENOENT: no such file or directory, open '' @ p))
                       | Some contents \<Rightarrow> Inr contents),
      readJson = (\<lambda>p. case map_of jsons p of
                         None \<Rightarrow> Inl (Error (''Unexpected token in JSON: '' @ p))
                       | Some v \<Rightarrow> Inr v),
      quickPickProjectFileItem = (\<lambda>folder message.
                         case map_of projects (fsPath folder) of
                           None \<Rightarrow> Inl (Error message)
                         | Some project \<Rightarrow> Inr project),
      resolveFilePath = (\<lambda>p folder.
                         let q = resolveWorkspaceFolderPath folder p
                         in if q \<noteq> [] \<and> hd q = CHR ''/'' then posix_normalize q
                            else posix_join [fsPath folder, q]),
      unresolveFilePath = (\<lambda>p folder.
                         if prefix (fsPath folder) p
                         then ''${workspaceFolder}'' @ drop (length (fsPath folder)) p
                         else p),
      getHostDebuggerPathBase = ''/home/me/.vsdbg'',
      getHostSecretsFolders =
        \<lparr>userSecretsFolder = ''/home/me/.microsoft/usersecrets'',
         certificateFolder = ''/home/me/.aspnet/https''\<rparr>,
      getContainerSecretsFolders = (\<lambda>os.
        if os = Some Windows
        then \<lparr>userSecretsFolder = ''C:'' @ bs @ ''Users'' @ bs @ ''ContainerUser'' @ bs @ ''AppData'' @ bs @
                                   ''Roaming'' @ bs @ ''Microsoft'' @ bs @ ''UserSecrets'',
              certificateFolder = ''C:'' @ bs @ ''Users'' @ bs @ ''ContainerUser'' @ bs @ ''AppData'' @ bs @
                                  ''Roaming'' @ bs @ ''ASP.NET'' @ bs @ ''Https''\<rparr>
        else \<lparr>userSecretsFolder = ''/root/.microsoft/usersecrets'',
              certificateFolder = ''/root/.aspnet/https''\<rparr>)\<rparr>"

section \<open>Scaffolding of the .NET Core tasks (a later revision of the task helper)\<close>

text \<open>
  A second revision of \<^verbatim>\<open>NetCoreTaskHelper\<close> among the sources scaffolds the build and run
  task definitions of a workspace folder.  \<^verbatim>\<open>DockerBuildTaskDefinition\<close> and
  \<^verbatim>\<open>DockerRunTaskDefinition\<close> are the object literals it returns.
\<close>

record NetCoreTaskScaffoldingOptions =
  scaffold_appProject :: "string option"
  scaffold_platformOS :: "PlatformOS option"


record DockerRunTaskDefinition =
  run_task_type :: string
  run_task_label :: string
  run_task_dependsOn :: "string list"
  dockerRun :: DockerRunOptions
  run_task_netCore :: NetCoreTaskOptions

text \<open>
  Modelled from the spec: \<^verbatim>\<open>getDefaultImageName\<close> is imported from \<^verbatim>\<open>TaskHelper.ts\<close>,
  which is not among the sources.  The specification gives the default image tag as
  "derived from folder name plus a dev/latest suffix", \<^verbatim>\<open>myapp:dev\<close> for the folder
  \<^verbatim>\<open>myapp\<close>.  Its second parameter has the type \<^verbatim>\<open>'dev' | 'latest'\<close>.
\<close>

datatype image_tag = dev | latest



text \<open>
  \<^verbatim>\<open>inferAppProject(folder)\<close> of this revision, called without helper options: the project
  file picked in the folder, or the picker's error.
\<close>

definition inferAppProject_scaffold :: "host \<Rightarrow> WorkspaceFolder \<Rightarrow> error + string" where
  "inferAppProject_scaffold h folder =
     quickPickProjectFileItem h folder ''No .NET Core project file (.csproj or .fsproj) could be found.''"

definition no_build_options :: DockerBuildOptions where
  "no_build_options =
     \<lparr>build_args = None, build_context = None, build_dockerfile = None, build_labels = None,
      build_tag = None, build_target = None, build_pull = None\<rparr>"

definition no_run_options :: DockerRunOptions where
  "no_run_options =
     \<lparr>run_command = None, run_containerName = None, run_entrypoint = None, run_env = None,
      run_envFiles = None, run_extraHosts = None, run_image = None, run_labels = None,
      run_network = None, run_networkAlias = None, run_os = None, run_ports = None,
      run_volumes = None\<rparr>"


text \<open>
  \<^verbatim>\<open>provideDockerRunTasks\<close>: the scaffolded run task carries the keep-alive entry point and
  command of the target platform.
\<close>

definition provideDockerRunTasks ::
  "host \<Rightarrow> WorkspaceFolder \<Rightarrow> NetCoreTaskScaffoldingOptions option \<Rightarrow>
     error + DockerRunTaskDefinition list" where
  "provideDockerRunTasks h folder options0 =
     (let options = (case options0 of
                       None \<Rightarrow> \<lparr>scaffold_appProject = None, scaffold_platformOS = None\<rparr>
                     | Some opts \<Rightarrow> opts)
      in ebind (if truthy (scaffold_appProject options)
                then Inr (the (scaffold_appProject options))
                else inferAppProject_scaffold h folder)
        (\<lambda>project.
           let platformOS = (case scaffold_platformOS options of None \<Rightarrow> Linux | Some os \<Rightarrow> os)
           in Inr [\<lparr>run_task_type = ''docker-run'',
                    run_task_label = ''docker-run: debug'',
                    run_task_dependsOn = [''docker-build: debug''],
                    dockerRun = no_run_options
                      \<lparr>run_entrypoint := Some (if platformOS = Windows then ''ping'' else ''tail''),
                       run_command := Some (if platformOS = Windows then ''-t localhost''
                                            else ''-f /dev/null''),
                       run_os := (if platformOS = Windows then Some Windows else None)\<rparr>,
                    run_task_netCore =
                      \<lparr>appProject = Some (unresolveFilePath h project folder),
                       configureSsl = None\<rparr>\<rparr>]))"

section \<open>Command-line assembly (\<^verbatim>\<open>tasks/DockerBuildTaskProvider.ts\<close>)\<close>

text \<open>
  Modelled from the spec: \<^verbatim>\<open>CommandLineBuilder\<close> is imported from
  \<^verbatim>\<open>utils/commandLineBuilder\<close>, which is not among the sources.  The specification gives the
  grammar \<^verbatim>\<open>build --rm [--pull] [-f dockerfile] [--build-arg k=v]* [--label k=v]* [-t tag]
  [--target stage] context\<close> and says that optional fields are omitted entirely, not passed as
  empty flags, when unset: \<^verbatim>\<open>{dockerfile: undefined}\<close> yields no \<^verbatim>\<open>-f\<close> token,
  \<^verbatim>\<open>{dockerfile: "Dockerfile"}\<close> yields \<^verbatim>\<open>-f Dockerfile\<close>.  A builder is the list of tokens
  collected so far; each method appends to it.  A token is the text of a
  \<^verbatim>\<open>ShellQuotedString\<close>; how the shell quotes it is not modelled.
\<close>

type_synonym CommandLineBuilder = "string list"

definition create :: "string list \<Rightarrow> CommandLineBuilder" where
  "create args = args"

definition withFlagArg :: "string \<Rightarrow> bool option \<Rightarrow> CommandLineBuilder \<Rightarrow> CommandLineBuilder" where
  "withFlagArg name v b = (if v = Some True then b @ [name] else b)"

definition withNamedArg :: "string \<Rightarrow> string option \<Rightarrow> CommandLineBuilder \<Rightarrow> CommandLineBuilder" where
  "withNamedArg name v b = (case v of None \<Rightarrow> b | Some s \<Rightarrow> b @ [name, s])"

definition withKeyValueArgs ::
  "string \<Rightarrow> (string \<times> string) list option \<Rightarrow> CommandLineBuilder \<Rightarrow> CommandLineBuilder" where
  "withKeyValueArgs name vs b =
     (case vs of
        None \<Rightarrow> b
      | Some kvs \<Rightarrow> b @ concat (map (\<lambda>(k, v). [name, k @ ''='' @ v]) kvs))"

definition withQuotedArg :: "string option \<Rightarrow> CommandLineBuilder \<Rightarrow> CommandLineBuilder" where
  "withQuotedArg v b = (case v of None \<Rightarrow> b | Some s \<Rightarrow> b @ [s])"

definition buildShellQuotedStrings :: "CommandLineBuilder \<Rightarrow> string list" where
  "buildShellQuotedStrings b = b"

text \<open>
  \<^verbatim>\<open>DockerBuildTaskProvider.resolveCommandLine\<close>: the chain of builder calls, first call
  innermost.
\<close>

definition resolveCommandLine :: "DockerBuildOptions \<Rightarrow> string list" where
  "resolveCommandLine options =
     buildShellQuotedStrings
      (withQuotedArg (build_context options)
      (withNamedArg ''--target'' (build_target options)
      (withNamedArg ''-t'' (build_tag options)
      (withKeyValueArgs ''--label'' (build_labels options)
      (withKeyValueArgs ''--build-arg'' (build_args options)
      (withNamedArg ''-f'' (build_dockerfile options)
      (withFlagArg ''--pull'' (build_pull options)
      (create [''docker'', ''build'', ''--rm''])))))))) "

section \<open>The .NET Core debug configuration provider
  (\<^verbatim>\<open>debugging/coreclr/dockerNetCoreDebugConfigurationProvider.ts\<close>)\<close>

record DockerDebugBuildOptions =
  dbuild_args :: "(string \<times> string) list option"
  dbuild_context :: "string option"
  dbuild_dockerfile :: "string option"
  dbuild_labels :: "(string \<times> string) list option"
  dbuild_tag :: "string option"
  dbuild_target :: "string option"

record DockerDebugRunOptions =
  drun_containerName :: "string option"
  drun_env :: "(string \<times> string) list option"
  drun_envFiles :: "string list option"
  drun_extraHosts :: "(string \<times> string) list option"
  drun_labels :: "(string \<times> string) list option"
  drun_network :: "string option"
  drun_networkAlias :: "string option"
  drun_os :: "PlatformOS option"
  drun_ports :: "DockerContainerPort list option"
  drun_volumes :: "DockerContainerVolume list option"

record DockerDebugConfiguration =
  dc_name :: string
  dc_preLaunchTask :: "string option"
  dc_appFolder :: "string option"
  dc_appOutput :: "string option"
  dc_appProject :: "string option"
  dc_dockerBuild :: "DockerDebugBuildOptions option"
  dc_dockerRun :: "DockerDebugRunOptions option"
  dc_configureAspNetCoreSsl :: "bool option"

text \<open>
  The options handed to the Docker manager, as the object literals of \<^verbatim>\<open>inferBuildOptions\<close>,
  \<^verbatim>\<open>inferRunOptions\<close> and \<^verbatim>\<open>resolveDockerDebugConfiguration\<close> build them, and the fields
  of the manager's \<^verbatim>\<open>LaunchResult\<close> that \<^verbatim>\<open>createConfiguration\<close> reads.
\<close>

record LaunchBuildOptions =
  lb_args :: "(string \<times> string) list option"
  lb_context :: string
  lb_dockerfile :: string
  lb_labels :: "(string \<times> string) list"
  lb_tag :: string
  lb_target :: string

record LaunchRunOptions =
  lr_containerName :: string
  lr_env :: "(string \<times> string) list option"
  lr_envFiles :: "string list option"
  lr_extraHosts :: "(string \<times> string) list option"
  lr_labels :: "(string \<times> string) list"
  lr_network :: "string option"
  lr_networkAlias :: "string option"
  lr_os :: PlatformOS
  lr_ports :: "DockerContainerPort list option"
  lr_volumes :: "DockerContainerVolume list"
  lr_configureAspNetCoreSsl :: bool
  lr_configureDotNetUserSecrets :: "bool option"

record LaunchOptions =
  lo_appFolder :: string
  lo_appOutput :: string
  lo_appProject :: string
  lo_build :: LaunchBuildOptions
  lo_run :: LaunchRunOptions

record LaunchResult =
  browserUrl :: "string option"
  program :: string
  programArgs :: "string list"
  programCwd :: string
  programEnv :: "(string \<times> string) list"
  pipeCwd :: string
  pipeProgram :: string
  pipeArgs :: "string list"
  debuggerPath :: string





text \<open>
  The collaborators injected through the provider's constructor, none of which is among the
  sources: the file-system provider (\<^verbatim>\<open>dirExists\<close>, \<^verbatim>\<open>fileExists\<close>, \<^verbatim>\<open>readDir\<close>,
  \<^verbatim>\<open>readFile\<close>), the OS provider (\<^verbatim>\<open>pathNormalize\<close>), the project provider
  (\<^verbatim>\<open>getTargetPath\<close>), the prerequisite and the Docker manager.  A call that may reject
  returns \<open>Inl\<close>.  Starting the debug session manager's listener has no effect on the value
  returned and is left out.
\<close>

record providers =
  dirExists :: "string \<Rightarrow> bool"
  fileExists :: "string \<Rightarrow> bool"
  readDir :: "string \<Rightarrow> error + string list"
  fsProvider_readFile :: "string \<Rightarrow> error + string"
  pathNormalize :: "PlatformOS \<Rightarrow> string \<Rightarrow> string"
  getTargetPath :: "string \<Rightarrow> error + string"
  checkPrerequisite :: "LaunchOptions \<Rightarrow> error + bool"
  prepareForLaunch :: "LaunchOptions \<Rightarrow> error + LaunchResult"

text \<open>
  \<^verbatim>\<open>inferAppFolder\<close>: the configured folder, else the folder of the configured project, else
  the workspace folder; it must exist.
\<close>

definition inferAppFolder ::
  "host \<Rightarrow> providers \<Rightarrow> WorkspaceFolder \<Rightarrow> DockerDebugConfiguration \<Rightarrow> error + string \<times> string" where
  "inferAppFolder h pr folder configuration =
     (let appFolder = (if truthy (dc_appFolder configuration) then the (dc_appFolder configuration)
                       else if truthy (dc_appProject configuration)
                       then path_dirname h (the (dc_appProject configuration))
                       else fsPath folder);
          resolvedAppFolder = resolveFilePath h appFolder folder
      in if \<not> dirExists pr resolvedAppFolder
         then Inl (Error (''The application folder '' @ quote @ resolvedAppFolder @ quote @
                '' does not exist. Ensure that the 'appFolder' or 'appProject' property is set '' @
                ''correctly in the Docker debug configuration.''))
         else Inr (appFolder, resolvedAppFolder))"

text \<open>
  \<^verbatim>\<open>inferAppProject\<close>: the configured project, else the first \<^verbatim>\<open>.csproj\<close> or \<^verbatim>\<open>.fsproj\<close>
  file of the application folder; there must be one, and it must exist.
\<close>

definition inferAppProject_debug ::
  "host \<Rightarrow> providers \<Rightarrow> WorkspaceFolder \<Rightarrow> DockerDebugConfiguration \<Rightarrow> string \<Rightarrow>
     error + string \<times> string" where
  "inferAppProject_debug h pr folder configuration resolvedAppFolder =
     ebind (if truthy (dc_appProject configuration) then Inr (dc_appProject configuration)
            else ebind (readDir pr resolvedAppFolder)
              (\<lambda>files.
                 case find (\<lambda>file. path_extname h file \<in> set [''.csproj'', ''.fsproj'']) files of
                   None \<Rightarrow> Inr None
                 | Some projectFile \<Rightarrow>
                     if projectFile \<noteq> [] then Inr (Some (path_join h [resolvedAppFolder, projectFile]))
                     else Inr None))
       (\<lambda>appProject.
          case appProject of
            None \<Rightarrow>
              Inl (Error (''Unable to infer the application project file. Set either the 'appFolder' '' @
                          ''or 'appProject' property in the Docker debug configuration.''))
          | Some project \<Rightarrow>
              (let resolvedAppProject = resolveFilePath h project folder
               in if \<not> fileExists pr resolvedAppProject
                  then Inl (Error (''The application project file '' @ quote @ resolvedAppProject @ quote @
                         '' does not exist. Ensure that the 'appFolder' or 'appProject' property is '' @
                         ''set correctly in the Docker debug configuration.''))
                  else Inr (project, resolvedAppProject)))"

text \<open>\<^verbatim>\<open>configuration.dockerBuild.f\<close>, guarded by \<^verbatim>\<open>configuration.dockerBuild &&\<close>.\<close>

definition dockerBuild_field ::
  "(DockerDebugBuildOptions \<Rightarrow> 'a option) \<Rightarrow> DockerDebugConfiguration \<Rightarrow> 'a option" where
  "dockerBuild_field f configuration =
     (case dc_dockerBuild configuration of None \<Rightarrow> None | Some b \<Rightarrow> f b)"

definition inferContext ::
  "host \<Rightarrow> providers \<Rightarrow> WorkspaceFolder \<Rightarrow> string \<Rightarrow> DockerDebugConfiguration \<Rightarrow> error + string" where
  "inferContext h pr folder resolvedAppFolder configuration =
     (let ctx = (if truthy (dockerBuild_field dbuild_context configuration)
                 then the (dockerBuild_field dbuild_context configuration)
                 else if path_normalize h resolvedAppFolder = path_normalize h (fsPath folder)
                 then resolvedAppFolder
                 else path_dirname h resolvedAppFolder);
          resolvedContext = resolveFilePath h ctx folder
      in if \<not> dirExists pr resolvedContext
         then Inl (Error (''The context folder '' @ quote @ resolvedContext @ quote @
                '' does not exist. Ensure that the 'context' property is set correctly in the '' @
                ''Docker debug configuration.''))
         else Inr resolvedContext)"

definition inferDockerfile ::
  "host \<Rightarrow> providers \<Rightarrow> WorkspaceFolder \<Rightarrow> string \<Rightarrow> DockerDebugConfiguration \<Rightarrow> error + string" where
  "inferDockerfile h pr folder resolvedAppFolder configuration =
     (let dockerfile = (if truthy (dockerBuild_field dbuild_dockerfile configuration)
                        then the (dockerBuild_field dbuild_dockerfile configuration)
                        else path_join h [resolvedAppFolder, ''Dockerfile'']);
          dockerfile = resolveFilePath h dockerfile folder
      in if \<not> fileExists pr dockerfile
         then Inl (Error (''The Dockerfile '' @ quote @ dockerfile @ quote @
                '' does not exist. Ensure that the 'dockerfile' property is set correctly in the '' @
                ''Docker debug configuration.''))
         else Inr dockerfile)"


text \<open>
  \<^verbatim>\<open>inferSsl\<close> of the provider: the configured value when there is one; otherwise the launch
  settings are inspected inside a \<^verbatim>\<open>try\<close> block with an empty \<^verbatim>\<open>catch\<close>, followed by
  \<^verbatim>\<open>return false\<close>.
\<close>

definition inferSsl_debug_try :: "host \<Rightarrow> providers \<Rightarrow> string \<Rightarrow> error + bool" where
  "inferSsl_debug_try h pr projectFile =
     (let launchSettingsPath = path_join h [path_dirname h projectFile, ''Properties'', ''launchSettings.json'']
      in if fileExists pr launchSettingsPath
         then ebind (readJson h launchSettingsPath) launchSettings_has_https
         else Inr False)"

definition inferSsl_debug ::
  "host \<Rightarrow> providers \<Rightarrow> DockerDebugConfiguration \<Rightarrow> string \<Rightarrow> error + bool" where
  "inferSsl_debug h pr debugConfiguration projectFile =
     (case dc_configureAspNetCoreSsl debugConfiguration of
        Some b \<Rightarrow> Inr b
      | None \<Rightarrow>
          (case inferSsl_debug_try h pr projectFile of
             Inr True \<Rightarrow> Inr True
           | Inr False \<Rightarrow> Inr False
           | Inl _ \<Rightarrow> Inr False))"

text \<open>
  \<^verbatim>\<open>inferUserSecrets\<close> of the provider: true with SSL; otherwise the search of the project
  file, and \<^verbatim>\<open>undefined\<close> (\<open>None\<close>) when the file does not exist.
\<close>

definition inferUserSecrets_debug :: "providers \<Rightarrow> bool \<Rightarrow> string \<Rightarrow> error + bool option" where
  "inferUserSecrets_debug pr ssl projectFile =
     (if ssl then Inr (Some True)
      else if fileExists pr projectFile
      then ebind (fsProvider_readFile pr projectFile)
             (\<lambda>contents. Inr (Some (UserSecretsRegex_test contents)))
      else Inr None)"












text \<open>An error names a text when its message contains the text.\<close>

definition names :: "error \<Rightarrow> string \<Rightarrow> bool" where
  "names e s = (case e of Error message \<Rightarrow> sublist s message | TypeError \<Rightarrow> False)"

section \<open>Post-debug container cleanup (\<^verbatim>\<open>debugging/DockerDebugConfigurationProvider.ts\<close>)\<close>

text \<open>
  \<^verbatim>\<open>ResolvedDebugConfigurationOptions\<close> and \<^verbatim>\<open>ResolvedDebugConfiguration\<close> of
  \<^verbatim>\<open>DebugHelper.ts\<close>; of the server-ready action only its presence matters here.
\<close>

record ResolvedDebugConfigurationOptions =
  containerNameToKill :: "string option"
  dockerServerReadyAction :: "string option"
  removeContainerAfterDebug :: "bool option"

record ResolvedDebugConfiguration =
  resolved_name :: string
  resolved_type :: "string option"
  resolved_request :: "string option"
  dockerOptions :: "ResolvedDebugConfigurationOptions option"

text \<open>
  The state the cleanup acts on.  \<open>removeRequests\<close> is the log of the calls
  \<^verbatim>\<open>dockerClient.removeContainer(name, { force: true })\<close>, oldest first.  \<open>listeners\<close> are the
  handlers registered with \<^verbatim>\<open>debug.onDidTerminateDebugSession\<close> and not yet disposed, in
  registration order; a handler is the closure of \<^verbatim>\<open>registerRemoveContainerAfterDebugging\<close>,
  determined by the container name it captured, and carries the identity of its registration so
  that \<^verbatim>\<open>disposable.dispose()\<close> removes this handler and no other.  \<open>nextListener\<close> is the
  identity the next registration gets.  The Docker client is not among the sources: whether it
  rejects the removal of a container is the parameter \<open>rejects\<close>; the request is logged
  either way.
\<close>

record cleanup_state =
  removeRequests :: "string list"
  listeners :: "(nat \<times> string) list"
  nextListener :: nat

definition removeContainer ::
  "(string \<Rightarrow> bool) \<Rightarrow> string \<Rightarrow> cleanup_state \<Rightarrow> cleanup_state \<times> error option" where
  "removeContainer rejects containerName s =
     (s\<lparr>removeRequests := removeRequests s @ [containerName]\<rparr>,
      if rejects containerName
      then Some (Error (''Error response from daemon: cannot remove '' @ containerName))
      else None)"

definition dispose :: "nat \<Rightarrow> cleanup_state \<Rightarrow> cleanup_state" where
  "dispose lid s = s\<lparr>listeners := filter (\<lambda>l. fst l \<noteq> lid) (listeners s)\<rparr>"

text \<open>
  The handler of one registration, run for a terminated session with configuration
  \<open>sessionConfiguration\<close>: when the session names the captured container, the container is
  removed and the handler disposed, also when the removal throws (the \<^verbatim>\<open>catch\<close> block
  disposes); otherwise the handler returns and stays registered.
\<close>

definition sessionTerminated ::
  "(string \<Rightarrow> bool) \<Rightarrow> nat \<times> string \<Rightarrow> ResolvedDebugConfiguration option \<Rightarrow> cleanup_state \<Rightarrow>
     cleanup_state" where
  "sessionTerminated rejects l sessionConfiguration s =
     (if (case sessionConfiguration of
            None \<Rightarrow> False
          | Some c \<Rightarrow> (case dockerOptions c of
                        None \<Rightarrow> False
                      | Some opts \<Rightarrow> containerNameToKill opts = Some (snd l)))
      then (case removeContainer rejects (snd l) s of
              (s', None) \<Rightarrow> dispose (fst l) s'
            | (s', Some _) \<Rightarrow> dispose (fst l) s')
      else s)"

text \<open>
  \<^verbatim>\<open>debug.onDidTerminateDebugSession\<close> firing: every handler registered at that moment runs,
  in registration order.
\<close>

definition onDidTerminateDebugSession ::
  "(string \<Rightarrow> bool) \<Rightarrow> ResolvedDebugConfiguration option \<Rightarrow> cleanup_state \<Rightarrow> cleanup_state" where
  "onDidTerminateDebugSession rejects sessionConfiguration s =
     foldl (\<lambda>s' l. sessionTerminated rejects l sessionConfiguration s') s (listeners s)"

text \<open>
  \<^verbatim>\<open>registerRemoveContainerAfterDebugging\<close>: when the resolved configuration asks for it
  (removal not switched off, a container name given), a container of that name left over is
  removed, errors ignored, and the handler is registered.
\<close>

definition registerRemoveContainerAfterDebugging ::
  "(string \<Rightarrow> bool) \<Rightarrow> ResolvedDebugConfiguration \<Rightarrow> cleanup_state \<Rightarrow> cleanup_state" where
  "registerRemoveContainerAfterDebugging rejects resolvedConfiguration s =
     (case dockerOptions resolvedConfiguration of
        None \<Rightarrow> s
      | Some opts \<Rightarrow>
          if (removeContainerAfterDebug opts = None \<or> removeContainerAfterDebug opts = Some True) \<and>
             truthy (containerNameToKill opts)
          then
           (let s1 = fst (removeContainer rejects (the (containerNameToKill opts)) s)
            in s1\<lparr>listeners := listeners s1 @ [(nextListener s1, the (containerNameToKill opts))],
                  nextListener := Suc (nextListener s1)\<rparr>)
          else s)"

text \<open>
  A terminated session names the container \<open>c\<close> when its configuration has Docker options
  whose \<^verbatim>\<open>containerNameToKill\<close> is \<open>c\<close>.
\<close>

definition session_names :: "ResolvedDebugConfiguration option \<Rightarrow> string \<Rightarrow> bool" where
  "session_names sessionConfiguration c \<longleftrightarrow>
     (\<exists>cfg opts. sessionConfiguration = Some cfg \<and> dockerOptions cfg = Some opts \<and>
        containerNameToKill opts = Some c)"

definition initial_cleanup_state :: cleanup_state where
  "initial_cleanup_state = \<lparr>removeRequests = [], listeners = [], nextListener = 0\<rparr>"

definition session_for :: "string \<Rightarrow> ResolvedDebugConfiguration" where
  "session_for c =
     \<lparr>resolved_name = ''Docker .NET Core Launch'', resolved_type = Some ''coreclr'',
      resolved_request = Some ''launch'',
      dockerOptions = Some \<lparr>containerNameToKill = Some c, dockerServerReadyAction = None,
                             removeContainerAfterDebug = None\<rparr>\<rparr>"

text \<open>
  What happens to the cleanup state while the extension runs: a debug configuration is resolved,
  which calls \<^verbatim>\<open>registerRemoveContainerAfterDebugging\<close> on it, or a debug session terminates.
  \<open>cleanup_run rejects events\<close> is the state after the events \<open>events\<close>, oldest first,
  starting with no handler registered.  \<open>fresh_ids\<close> says that the handlers registered have
  distinct identities, all given out already.
\<close>

datatype cleanup_event =
  Resolved ResolvedDebugConfiguration
| Terminated "ResolvedDebugConfiguration option"

definition cleanup_step :: "(string \<Rightarrow> bool) \<Rightarrow> cleanup_state \<Rightarrow> cleanup_event \<Rightarrow> cleanup_state" where
  "cleanup_step rejects s event =
     (case event of
        Resolved resolvedConfiguration \<Rightarrow>
          registerRemoveContainerAfterDebugging rejects resolvedConfiguration s
      | Terminated sessionConfiguration \<Rightarrow>
          onDidTerminateDebugSession rejects sessionConfiguration s)"

definition cleanup_run :: "(string \<Rightarrow> bool) \<Rightarrow> cleanup_event list \<Rightarrow> cleanup_state" where
  "cleanup_run rejects events = foldl (cleanup_step rejects) initial_cleanup_state events"

definition fresh_ids :: "cleanup_state \<Rightarrow> bool" where
  "fresh_ids s \<longleftrightarrow>
     (\<forall>l\<in>set (listeners s). fst l < nextListener s) \<and> distinct (map fst (listeners s))"

section \<open>Persisted launch configurations (\<^verbatim>\<open>debugging/DebugHelper.ts\<close>)\<close>

text \<open>
  A launch configuration as \<^verbatim>\<open>launch.json\<close> holds it: its name, type and request, and its
  other properties.  \<open>workspaceLaunch\<close> is the \<^verbatim>\<open>launch\<close> section of the workspace
  configuration: the persisted list (\<open>None\<close> when the section has no \<^verbatim>\<open>configurations\<close>)
  and whether the host accepts an update; \<^verbatim>\<open>update\<close> rejects when it does not.
\<close>

record LaunchConfiguration =
  launch_name :: string
  launch_type :: string
  launch_request :: string
  launch_properties :: "(string \<times> json) list"

record workspaceLaunch =
  configurations :: "LaunchConfiguration list option"
  writable :: bool

definition update_configurations ::
  "LaunchConfiguration list \<Rightarrow> workspaceLaunch \<Rightarrow> error + workspaceLaunch" where
  "update_configurations allConfigs w =
     (if writable w then Inr (w\<lparr>configurations := Some allConfigs\<rparr>)
      else Inl (Error ''Unable to write to Workspace Settings.''))"

text \<open>
  \<^verbatim>\<open>addDebugConfiguration\<close>: returns false when a configuration of that name exists; else
  appends the configuration, writes the list back and returns true.  The result pairs the
  boolean with the persisted section after the call.
\<close>

definition addDebugConfiguration ::
  "LaunchConfiguration \<Rightarrow> workspaceLaunch \<Rightarrow> error + bool \<times> workspaceLaunch" where
  "addDebugConfiguration debugConfiguration w =
     (let allConfigs = (case configurations w of None \<Rightarrow> [] | Some cs \<Rightarrow> cs)
      in if list_ex (\<lambda>c. launch_name c = launch_name debugConfiguration) allConfigs
         then Inr (False, w)
         else ebind (update_configurations (allConfigs @ [debugConfiguration]) w)
                (\<lambda>w'. Inr (True, w')))"

definition launch_entry :: "string \<Rightarrow> string \<Rightarrow> LaunchConfiguration" where
  "launch_entry name type =
     \<lparr>launch_name = name, launch_type = type, launch_request = ''launch'', launch_properties = []\<rparr>"

section \<open>Example workspaces\<close>

text \<open>
  \<open>posix_providers files dirs\<close> are the provider's collaborators on the POSIX host with the
  readable files \<open>files\<close> and the directories \<open>dirs\<close>: a directory lists the files right
  inside it, the project's target is its debug assembly, the prerequisite holds, and the Docker
  manager answers with the launch of that assembly under \<^verbatim>\<open>dotnet\<close> in the container.
\<close>

definition posix_providers :: "(string \<times> string) list \<Rightarrow> string list \<Rightarrow> providers" where
  "posix_providers files dirs =
     \<lparr>dirExists = (\<lambda>p. p \<in> set dirs),
      fileExists = (\<lambda>p. map_of files p \<noteq> None),
      readDir = (\<lambda>d. if d \<in> set dirs
                      then Inr (map (posix_base \<circ> fst) (filter (\<lambda>f. posix_dirname (fst f) = d) files))
                      else Inl (Error (''ENOENT: no such file or directory, scandir '' @ d))),
      fsProvider_readFile = (\<lambda>p. case map_of files p of
                         None \<Rightarrow> Inl (Error (''ENOENT: no such file or directory, open '' @ p))
                       | Some contents \<Rightarrow> Inr contents),
      pathNormalize = (\<lambda>os p. if os = Windows
                                then map (\<lambda>c. if c = CHR ''/'' then CHR 0x5C else c) p
                                else p),
      getTargetPath = (\<lambda>project. Inr (posix_join [posix_dirname project, ''bin'', ''Debug'',
                                                    posix_parse_name project @ ''.dll''])),
      checkPrerequisite = (\<lambda>_. Inr True),
      prepareForLaunch = (\<lambda>launchOptions.
        Inr \<lparr>browserUrl = None,
             program = ''dotnet'',
             programArgs = [''/app/'' @ lo_appOutput launchOptions],
             programCwd = ''/app'',
             programEnv = [],
             pipeCwd = lo_appFolder launchOptions,
             pipeProgram = ''docker'',
             pipeArgs = [''exec'', ''-i'', lr_containerName (lo_run launchOptions)],
             debuggerPath = ''/remote_debugger/vsdbg''\<rparr>)\<rparr>"

definition example_folder :: WorkspaceFolder where
  "example_folder = \<lparr>folder_name = ''myapp'', fsPath = ''/ws/myapp''\<rparr>"

text \<open>
  A workspace with one project file that mentions no user secrets, and one whose project file
  carries the token in lower case.
\<close>

definition plain_host :: host where
  "plain_host = posix_host [(''/ws/myapp/myapp.csproj'', ''<Project/>'')] [] []"

definition secrets_files :: "(string \<times> string) list" where
  "secrets_files =
     [(''/ws/myapp/myapp.csproj'', ''<usersecretsid>1'')]"

definition secrets_host :: host where
  "secrets_host = posix_host secrets_files [] []"

definition myapp_options :: NetCoreTaskOptions where
  "myapp_options = \<lparr>appProject = Some ''/ws/myapp/myapp.csproj'', configureSsl = None\<rparr>"


text \<open>
  Launch settings with a project profile served over HTTPS, a workspace that has them, and a
  workspace whose launch settings file exists but does not parse.
\<close>

definition https_settings :: json where
  "https_settings =
     JObj [(''profiles'',
            JObj [(''IIS Express'', JObj [(''commandName'', JStr ''IISExpress'')]),
                  (''myapp'',
                   JObj [(''commandName'', JStr ''Project''),
                         (''applicationUrl'', JStr ''HTTPS://localhost:5001'')])])]"

definition https_host :: host where
  "https_host =
     posix_host [(''/ws/myapp/myapp.csproj'', ''<Project/>'')]
       [(''/ws/myapp/Properties/launchSettings.json'', https_settings)] []"

definition broken_settings_host :: host where
  "broken_settings_host =
     posix_host [(''/ws/myapp/myapp.csproj'', ''<Project/>''),
                 (''/ws/myapp/Properties/launchSettings.json'', ''{'')] [] []"













section \<open>Properties of the volume and port lists\<close>

lemma find_Some_iff_ex: "(\<exists>y. find P xs = Some y) \<longleftrightarrow> (\<exists>x\<in>set xs. P x)"
  by (induction xs) auto

text \<open>
  C1.  Adding a volume whose container path is already the container path of a volume of the
  list returns false and leaves the list as it was (the first mapping wins); adding a port whose
  container port is already in the list does the same.
\<close>

theorem add_without_conflicts_first_write_wins:
  "((\<exists>v\<in>set volumes. containerPath v = containerPath volume) \<longrightarrow>
      addVolumeWithoutConflicts volumes volume = (volumes, False)) \<and>
   ((\<exists>p\<in>set ports. containerPort p = containerPort port) \<longrightarrow>
      addPortWithoutConflicts ports port = (ports, False))"
proof (intro conjI impI)
  assume "\<exists>v\<in>set volumes. containerPath v = containerPath volume"
  then obtain y where "find (\<lambda>v. containerPath v = containerPath volume) volumes = Some y"
    using find_Some_iff_ex [of "\<lambda>v. containerPath v = containerPath volume" volumes] by blast
  then show "addVolumeWithoutConflicts volumes volume = (volumes, False)"
    by (simp add: addVolumeWithoutConflicts_def)
next
  assume "\<exists>p\<in>set ports. containerPort p = containerPort port"
  then obtain y where "find (\<lambda>p. containerPort p = containerPort port) ports = Some y"
    using find_Some_iff_ex [of "\<lambda>p. containerPort p = containerPort port" ports] by blast
  then show "addPortWithoutConflicts ports port = (ports, False)"
    by (simp add: addPortWithoutConflicts_def)
qed

theorem add_without_conflicts_first_write_wins_witness:
  "addVolumeWithoutConflicts
     [\<lparr>localPath = ''/home/me/app'', containerPath = ''/app'', permissions = Some RW\<rparr>]
     \<lparr>localPath = ''/tmp/other'', containerPath = ''/app'', permissions = Some RO\<rparr>
   = ([\<lparr>localPath = ''/home/me/app'', containerPath = ''/app'', permissions = Some RW\<rparr>], False) \<and>
   addPortWithoutConflicts
     [\<lparr>hostPort = Some 80, containerPort = 5678\<rparr>] \<lparr>hostPort = Some 5678, containerPort = 5678\<rparr>
   = ([\<lparr>hostPort = Some 80, containerPort = 5678\<rparr>], False)"
  using add_without_conflicts_first_write_wins
    [of "[\<lparr>localPath = ''/home/me/app'', containerPath = ''/app'', permissions = Some RW\<rparr>]"
        "\<lparr>localPath = ''/tmp/other'', containerPath = ''/app'', permissions = Some RO\<rparr>"
        "[\<lparr>hostPort = Some 80, containerPort = 5678\<rparr>]"
        "\<lparr>hostPort = Some 5678, containerPort = 5678\<rparr>"]
  by simp

section \<open>Awaiting a result\<close>

lemma ebind_Inr: "ebind m f = Inr y \<longleftrightarrow> (\<exists>x. m = Inr x \<and> f x = Inr y)"
  by (cases m) (simp_all add: ebind_def)

section \<open>Evaluation on the example workspace\<close>

lemma dirname_project: "posix_dirname ''/ws/myapp/myapp.csproj'' = ''/ws/myapp''"
  by (simp add: posix_dirname_def)

lemma launchSettings_path:
  "posix_join [posix_dirname ''/ws/myapp/myapp.csproj'', ''Properties'', ''launchSettings.json'']
     = ''/ws/myapp/Properties/launchSettings.json''"
  by (simp add: dirname_project posix_join_def posix_normalize_def normalize_step_def)


lemma nuget_path: "posix_join [''/home/me'', ''.nuget'', ''packages''] = ''/home/me/.nuget/packages''"
  by (simp add: posix_join_def posix_normalize_def normalize_step_def)

lemma resolve_absolute_project:
  "resolveWorkspaceFolderPath example_folder ''/ws/myapp/myapp.csproj'' = ''/ws/myapp/myapp.csproj''"
  "resolveWorkspaceFolderPath example_folder ''/ws/myapp/Web.csproj'' = ''/ws/myapp/Web.csproj''"
  by (simp_all add: resolveWorkspaceFolderPath_def replace_all_ci_def canonicalize_def upper_letters_def lower_letters_def)


lemma plain_host_fields:
  "path_dirname plain_host = posix_dirname"
  "path_join plain_host = posix_join"
  "path_parse_name plain_host = posix_parse_name"
  "os_platform plain_host = other_platform"
  "os_homedir plain_host = ''/home/me''"
  "pathExists plain_host p = (p = ''/ws/myapp/myapp.csproj'')"
  "readFile plain_host ''/ws/myapp/myapp.csproj'' = Inr ''<Project/>''"
  "unresolveFilePath plain_host ''/ws/myapp/myapp.csproj'' example_folder = ''${workspaceFolder}/myapp.csproj''"
  "getHostDebuggerPathBase plain_host = ''/home/me/.vsdbg''"
  by (simp_all add: plain_host_def posix_host_def example_folder_def)



lemma broken_settings_host_fields:
  "path_dirname broken_settings_host = posix_dirname"
  "path_join broken_settings_host = posix_join"
  "path_parse_name broken_settings_host = posix_parse_name"
  "os_platform broken_settings_host = other_platform"
  "pathExists broken_settings_host ''/ws/myapp/Properties/launchSettings.json''"
  "readJson broken_settings_host p = Inl (Error (''Unexpected token in JSON: '' @ p))"
  "readFile broken_settings_host ''/ws/myapp/myapp.csproj'' = Inr ''<Project/>''"
  by (simp_all add: broken_settings_host_def posix_host_def)

lemma https_host_fields:
  "path_dirname https_host = posix_dirname"
  "path_join https_host = posix_join"
  "pathExists https_host ''/ws/myapp/Properties/launchSettings.json''"
  "readJson https_host ''/ws/myapp/Properties/launchSettings.json'' = Inr https_settings"
  by (simp_all add: https_host_def posix_host_def)







section \<open>Properties of the post-debug cleanup\<close>

lemma sessionTerminated_cases:
  "sessionTerminated rejects l sc s =
     (if session_names sc (snd l)
      then s\<lparr>removeRequests := removeRequests s @ [snd l],
             listeners := filter (\<lambda>k. fst k \<noteq> fst l) (listeners s)\<rparr>
      else s)"
  by (auto simp: sessionTerminated_def session_names_def removeContainer_def dispose_def
      split: option.splits)

lemma fire_foldl:
  "foldl (\<lambda>s' l. sessionTerminated rejects l sc s') s ls =
     s\<lparr>removeRequests := removeRequests s @ map snd (filter (\<lambda>l. session_names sc (snd l)) ls),
       listeners := filter (\<lambda>k. fst k \<notin> fst ` set (filter (\<lambda>l. session_names sc (snd l)) ls))
                      (listeners s)\<rparr>"
proof (induction ls arbitrary: s)
  case Nil
  show ?case by simp
next
  case (Cons l ls)
  have "foldl (\<lambda>s' l. sessionTerminated rejects l sc s') s (l # ls) =
        foldl (\<lambda>s' l. sessionTerminated rejects l sc s') (sessionTerminated rejects l sc s) ls"
    by simp
  also have "\<dots> = (sessionTerminated rejects l sc s)
      \<lparr>removeRequests := removeRequests (sessionTerminated rejects l sc s)
          @ map snd (filter (\<lambda>l. session_names sc (snd l)) ls),
       listeners := filter (\<lambda>k. fst k \<notin> fst ` set (filter (\<lambda>l. session_names sc (snd l)) ls))
                      (listeners (sessionTerminated rejects l sc s))\<rparr>"
    by (rule Cons.IH)
  also have "\<dots> = s\<lparr>removeRequests := removeRequests s
          @ map snd (filter (\<lambda>l. session_names sc (snd l)) (l # ls)),
       listeners := filter (\<lambda>k. fst k \<notin> fst ` set (filter (\<lambda>l. session_names sc (snd l)) (l # ls)))
                      (listeners s)\<rparr>"
    by (auto simp: sessionTerminated_cases intro: filter_cong)
  finally show ?case .
qed

lemma onDidTerminateDebugSession_eq:
  "onDidTerminateDebugSession rejects sc s =
     s\<lparr>removeRequests := removeRequests s @ map snd (filter (\<lambda>l. session_names sc (snd l)) (listeners s)),
       listeners := filter (\<lambda>k. fst k \<notin> fst ` set (filter (\<lambda>l. session_names sc (snd l)) (listeners s)))
                      (listeners s)\<rparr>"
  by (simp add: onDidTerminateDebugSession_def fire_foldl)

lemma register_eq:
  assumes "dockerOptions resolvedConfiguration = Some opts"
    and "containerNameToKill opts = Some c" and "c \<noteq> []"
    and "removeContainerAfterDebug opts \<noteq> Some False"
  shows "registerRemoveContainerAfterDebugging rejects resolvedConfiguration s =
           s\<lparr>removeRequests := removeRequests s @ [c],
             listeners := listeners s @ [(nextListener s, c)],
             nextListener := Suc (nextListener s)\<rparr>"
proof -
  have "removeContainerAfterDebug opts = None \<or> removeContainerAfterDebug opts = Some True"
    using assms(4) by (cases "removeContainerAfterDebug opts") auto
  then show ?thesis
    using assms(1-3)
    by (auto simp: registerRemoveContainerAfterDebugging_def truthy_def removeContainer_def)
qed

lemma register_fresh_ids:
  assumes "fresh_ids s"
  shows "fresh_ids (registerRemoveContainerAfterDebugging rejects resolvedConfiguration s)"
  using assms
  by (force simp: registerRemoveContainerAfterDebugging_def fresh_ids_def removeContainer_def
      Let_def split: option.splits)

lemma terminate_fresh_ids:
  assumes "fresh_ids s"
  shows "fresh_ids (onDidTerminateDebugSession rejects sessionConfiguration s)"
  using assms by (auto simp: onDidTerminateDebugSession_eq fresh_ids_def distinct_map_filter)

lemma foldl_fresh_ids:
  "fresh_ids s \<Longrightarrow> fresh_ids (foldl (cleanup_step rejects) s events)"
proof (induction events arbitrary: s)
  case Nil
  then show ?case by simp
next
  case (Cons event events)
  have "fresh_ids (cleanup_step rejects s event)"
    using Cons.prems
    by (cases event) (simp_all add: cleanup_step_def register_fresh_ids terminate_fresh_ids)
  then show ?case
    using Cons.IH by simp
qed

lemma cleanup_run_fresh_ids: "fresh_ids (cleanup_run rejects events)"
  unfolding cleanup_run_def
  by (rule foldl_fresh_ids) (simp add: fresh_ids_def initial_cleanup_state_def)

lemma map_snd_filter:
  "map snd (filter (\<lambda>l. snd l = x) ls) = replicate (length (filter (\<lambda>l. snd l = x) ls)) x"
  by (induction ls) auto

lemma cleanup_steps_general:
  assumes reg: "dockerOptions resolvedConfiguration = Some opts"
      "containerNameToKill opts = Some c" "c \<noteq> []"
      "removeContainerAfterDebug opts \<noteq> Some False"
    and fresh: "fresh_ids s"
    and other: "session_names session2 d" "d \<noteq> c"
    and same: "session_names session1 c"
    and s1: "s1 = registerRemoveContainerAfterDebugging rejects resolvedConfiguration s"
    and s2: "s2 = onDidTerminateDebugSession rejects session2 s1"
    and s3: "s3 = onDidTerminateDebugSession rejects session1 s2"
  shows "listeners s1 = listeners s @ [(nextListener s, c)]"
    and "removeRequests s2 =
           removeRequests s1 @ replicate (length (filter (\<lambda>l. snd l = d) (listeners s))) d"
    and "filter (\<lambda>l. snd l = c) (listeners s2) =
           filter (\<lambda>l. snd l = c) (listeners s) @ [(nextListener s, c)]"
    and "distinct (map fst (listeners s2))"
    and "removeRequests s3 =
           removeRequests s2 @ replicate (Suc (length (filter (\<lambda>l. snd l = c) (listeners s)))) c"
    and "\<forall>l\<in>set (listeners s3). snd l \<noteq> c"
    and "onDidTerminateDebugSession rejects session1 s3 = s3"
proof -
  have s1_eq: "s1 = s\<lparr>removeRequests := removeRequests s @ [c],
             listeners := listeners s @ [(nextListener s, c)],
             nextListener := Suc (nextListener s)\<rparr>"
    unfolding s1 by (rule register_eq [OF reg])
  show l1: "listeners s1 = listeners s @ [(nextListener s, c)]"
    by (simp add: s1_eq)
  have names2: "session_names session2 x \<longleftrightarrow> x = d" for x
    using other(1) by (auto simp: session_names_def)
  have names1: "session_names session1 x \<longleftrightarrow> x = c" for x
    using same by (auto simp: session_names_def)
  have dist1: "distinct (map fst (listeners s1))"
    using fresh unfolding l1 fresh_ids_def by force
  define M2 where "M2 = filter (\<lambda>l. snd l = d) (listeners s)"
  have M2_eq: "filter (\<lambda>l. snd l = d) (listeners s1) = M2"
    using other(2) by (simp add: l1 M2_def)
  have s2_eq: "s2 = s1\<lparr>removeRequests := removeRequests s1 @ map snd M2,
       listeners := filter (\<lambda>k. fst k \<notin> fst ` set M2) (listeners s1)\<rparr>"
    unfolding s2 onDidTerminateDebugSession_eq by (simp add: names2 M2_eq)
  show "removeRequests s2 =
           removeRequests s1 @ replicate (length (filter (\<lambda>l. snd l = d) (listeners s))) d"
    by (simp add: s2_eq M2_def map_snd_filter)
  have keep: "fst l \<notin> fst ` set M2" if "l \<in> set (listeners s1)" "snd l = c" for l
  proof
    assume "fst l \<in> fst ` set M2"
    then obtain m where m: "m \<in> set M2" "fst m = fst l"
      by force
    then have "m \<in> set (listeners s1)" "snd m = d"
      by (auto simp: M2_def l1)
    with that m(2) dist1 have "snd m = snd l"
      by (metis eq_key_imp_eq_value prod.collapse)
    with \<open>snd m = d\<close> that(2) other(2) show False
      by simp
  qed
  have "filter (\<lambda>l. snd l = c) (filter (\<lambda>k. fst k \<notin> fst ` set M2) (listeners s1)) =
        filter (\<lambda>l. fst l \<notin> fst ` set M2 \<and> snd l = c) (listeners s1)"
    by simp
  also have "\<dots> = filter (\<lambda>l. snd l = c) (listeners s1)"
    by (rule filter_cong) (use keep in blast)+
  finally have "filter (\<lambda>l. snd l = c) (listeners s2) = filter (\<lambda>l. snd l = c) (listeners s1)"
    by (simp add: s2_eq)
  then show c2: "filter (\<lambda>l. snd l = c) (listeners s2) =
           filter (\<lambda>l. snd l = c) (listeners s) @ [(nextListener s, c)]"
    by (simp add: l1)
  show "distinct (map fst (listeners s2))"
    using dist1 by (simp add: s2_eq distinct_map_filter)
  define M3 where "M3 = filter (\<lambda>l. snd l = c) (listeners s2)"
  have s3_eq: "s3 = s2\<lparr>removeRequests := removeRequests s2 @ map snd M3,
       listeners := filter (\<lambda>k. fst k \<notin> fst ` set M3) (listeners s2)\<rparr>"
    unfolding s3 onDidTerminateDebugSession_eq by (simp add: names1 M3_def)
  have "map snd M3 = replicate (length M3) c"
    unfolding M3_def by (rule map_snd_filter)
  moreover have "length M3 = Suc (length (filter (\<lambda>l. snd l = c) (listeners s)))"
    by (simp add: M3_def c2)
  ultimately show "removeRequests s3 =
           removeRequests s2 @ replicate (Suc (length (filter (\<lambda>l. snd l = c) (listeners s)))) c"
    by (simp add: s3_eq)
  show none: "\<forall>l\<in>set (listeners s3). snd l \<noteq> c"
    by (force simp: s3_eq M3_def)
  have "filter (\<lambda>l. snd l = c) (listeners s3) = []"
    using none by (auto simp: filter_empty_conv)
  then show "onDidTerminateDebugSession rejects session1 s3 = s3"
    unfolding onDidTerminateDebugSession_eq by (simp add: names1)
qed

text \<open>
  C2, as amended.  Let cleanup be registered for the container \<open>c\<close> in any state \<open>s\<close>
  the extension can be in, where \<open>live\<close> are the handlers for \<open>c\<close> registered earlier and
  not yet disposed (\<open>s1\<close>).  When a session naming another container \<open>d\<close> terminates
  (\<open>s2\<close>), only removals of \<open>d\<close> are requested, and every handler for \<open>c\<close>, the new
  one included, stays registered, each under its own identity.  When a session naming \<open>c\<close>
  then terminates (\<open>s3\<close>), each of these handlers requests one removal of \<open>c\<close>, so that
  there is one request more than there were handlers in \<open>live\<close>, and exactly one when there
  was none; no handler for \<open>c\<close> remains, and a further termination changes nothing.  This
  holds whether or not the Docker client rejects a removal.
\<close>

theorem cleanup_listeners_fire_once_each:
  assumes "dockerOptions resolvedConfiguration = Some opts"
    and "containerNameToKill opts = Some c" and "c \<noteq> []"
    and "removeContainerAfterDebug opts \<noteq> Some False"
    and "session_names session2 d" and "d \<noteq> c"
    and "session_names session1 c"
  shows "let s = cleanup_run rejects events;
             live = filter (\<lambda>l. snd l = c) (listeners s);
             s1 = registerRemoveContainerAfterDebugging rejects resolvedConfiguration s;
             s2 = onDidTerminateDebugSession rejects session2 s1;
             s3 = onDidTerminateDebugSession rejects session1 s2
         in listeners s1 = listeners s @ [(nextListener s, c)] \<and>
            removeRequests s2 =
              removeRequests s1 @ replicate (length (filter (\<lambda>l. snd l = d) (listeners s))) d \<and>
            filter (\<lambda>l. snd l = c) (listeners s2) = live @ [(nextListener s, c)] \<and>
            distinct (map fst (listeners s2)) \<and>
            removeRequests s3 = removeRequests s2 @ replicate (Suc (length live)) c \<and>
            (live = [] \<longrightarrow> removeRequests s3 = removeRequests s2 @ [c]) \<and>
            (\<forall>l\<in>set (listeners s3). snd l \<noteq> c) \<and>
            onDidTerminateDebugSession rejects session1 s3 = s3"
proof -
  have fresh: "fresh_ids (cleanup_run rejects events)"
    by (rule cleanup_run_fresh_ids)
  note steps = cleanup_steps_general
    [where rejects = rejects, OF assms(1-4) fresh assms(5-7) refl refl refl]
  have "removeRequests
          (onDidTerminateDebugSession rejects session1
             (onDidTerminateDebugSession rejects session2
                (registerRemoveContainerAfterDebugging rejects resolvedConfiguration
                   (cleanup_run rejects events)))) =
        removeRequests
          (onDidTerminateDebugSession rejects session2
             (registerRemoveContainerAfterDebugging rejects resolvedConfiguration
                (cleanup_run rejects events))) @ [c]"
    if "filter (\<lambda>l. snd l = c) (listeners (cleanup_run rejects events)) = []"
    using steps(5) that by simp
  then show ?thesis
    unfolding Let_def using steps by blast
qed

text \<open>
  The claim as stated fails when cleanup for \<^verbatim>\<open>c1\<close> was registered before and its session
  never terminated: after two registrations, one termination of a session naming \<^verbatim>\<open>c1\<close>
  requests the removal twice (the first two requests are those of the registrations).
\<close>

theorem second_registration_removes_twice:
  "removeRequests
     (cleanup_run (\<lambda>_. False) [Resolved (session_for ''c1''), Resolved (session_for ''c1'')]) =
     [''c1'', ''c1''] \<and>
   removeRequests
     (cleanup_run (\<lambda>_. False)
        [Resolved (session_for ''c1''), Resolved (session_for ''c1''),
         Terminated (Some (session_for ''c1''))]) =
     [''c1'', ''c1''] @ [''c1'', ''c1'']"
  by (simp add: cleanup_run_def cleanup_step_def registerRemoveContainerAfterDebugging_def
      onDidTerminateDebugSession_def sessionTerminated_def session_for_def
      initial_cleanup_state_def truthy_def removeContainer_def dispose_def)

text \<open>
  The theorem at work: from the start, cleanup is registered for \<^verbatim>\<open>c1\<close>, a session naming
  \<^verbatim>\<open>c2\<close> terminates, and then one naming \<^verbatim>\<open>c1\<close>.
\<close>

theorem cleanup_listeners_fire_once_each_witness:
  "let s1 = registerRemoveContainerAfterDebugging (\<lambda>_. False) (session_for ''c1'')
              (cleanup_run (\<lambda>_. False) []);
       s2 = onDidTerminateDebugSession (\<lambda>_. False) (Some (session_for ''c2'')) s1;
       s3 = onDidTerminateDebugSession (\<lambda>_. False) (Some (session_for ''c1'')) s2
   in listeners s1 = [(0, ''c1'')] \<and> removeRequests s1 = [''c1''] \<and>
      listeners s2 = [(0, ''c1'')] \<and> removeRequests s2 = [''c1''] \<and>
      listeners s3 = [] \<and> removeRequests s3 = [''c1'', ''c1''] \<and>
      removeRequests s3 = removeRequests s2 @ [''c1''] \<and>
      onDidTerminateDebugSession (\<lambda>_. False) (Some (session_for ''c1'')) s3 = s3"
proof -
  have inst: "let s = cleanup_run (\<lambda>_. False) [];
             live = filter (\<lambda>l. snd l = ''c1'') (listeners s);
             s1 = registerRemoveContainerAfterDebugging (\<lambda>_. False) (session_for ''c1'') s;
             s2 = onDidTerminateDebugSession (\<lambda>_. False) (Some (session_for ''c2'')) s1;
             s3 = onDidTerminateDebugSession (\<lambda>_. False) (Some (session_for ''c1'')) s2
         in listeners s1 = listeners s @ [(nextListener s, ''c1'')] \<and>
            removeRequests s2 =
              removeRequests s1 @
              replicate (length (filter (\<lambda>l. snd l = ''c2'') (listeners s))) ''c2'' \<and>
            filter (\<lambda>l. snd l = ''c1'') (listeners s2) = live @ [(nextListener s, ''c1'')] \<and>
            distinct (map fst (listeners s2)) \<and>
            removeRequests s3 = removeRequests s2 @ replicate (Suc (length live)) ''c1'' \<and>
            (live = [] \<longrightarrow> removeRequests s3 = removeRequests s2 @ [''c1'']) \<and>
            (\<forall>l\<in>set (listeners s3). snd l \<noteq> ''c1'') \<and>
            onDidTerminateDebugSession (\<lambda>_. False) (Some (session_for ''c1'')) s3 = s3"
    by (rule cleanup_listeners_fire_once_each
          [where opts = "\<lparr>containerNameToKill = Some ''c1'', dockerServerReadyAction = None,
                          removeContainerAfterDebug = None\<rparr>" and d = "''c2''"])
       (simp_all add: session_names_def session_for_def)
  have s0: "cleanup_run (\<lambda>_. False) [] =
          \<lparr>removeRequests = [], listeners = [], nextListener = 0\<rparr>"
    by (simp add: cleanup_run_def initial_cleanup_state_def)
  have s1: "registerRemoveContainerAfterDebugging (\<lambda>_. False) (session_for ''c1'')
          \<lparr>removeRequests = [], listeners = [], nextListener = 0\<rparr> =
          \<lparr>removeRequests = [''c1''], listeners = [(0, ''c1'')], nextListener = Suc 0\<rparr>"
    by (simp add: registerRemoveContainerAfterDebugging_def session_for_def truthy_def
        removeContainer_def)
  have s2: "onDidTerminateDebugSession (\<lambda>_. False) (Some (session_for ''c2''))
          \<lparr>removeRequests = [''c1''], listeners = [(0, ''c1'')], nextListener = Suc 0\<rparr> =
          \<lparr>removeRequests = [''c1''], listeners = [(0, ''c1'')], nextListener = Suc 0\<rparr>"
    by (simp add: onDidTerminateDebugSession_def sessionTerminated_def session_for_def)
  have s3: "onDidTerminateDebugSession (\<lambda>_. False) (Some (session_for ''c1''))
          \<lparr>removeRequests = [''c1''], listeners = [(0, ''c1'')], nextListener = Suc 0\<rparr> =
          \<lparr>removeRequests = [''c1'', ''c1''], listeners = [], nextListener = Suc 0\<rparr>"
    by (simp add: onDidTerminateDebugSession_def sessionTerminated_def session_for_def
        removeContainer_def dispose_def)
  show ?thesis
    using inst by (simp add: Let_def s0 s1 s2 s3)
qed
section \<open>Properties of the command-line assembly\<close>

text \<open>
  C3.  The command line of a build is \<^verbatim>\<open>docker build --rm\<close> followed, in this order, by
  the tokens of \<^verbatim>\<open>--pull\<close>, \<^verbatim>\<open>-f\<close>, \<^verbatim>\<open>--build-arg\<close>, \<^verbatim>\<open>--label\<close>, \<^verbatim>\<open>-t\<close>,
  \<^verbatim>\<open>--target\<close> and the context.  A field that is set contributes its flag and its argument
  (one flag and one \<^verbatim>\<open>key=value\<close> argument per entry for build arguments and labels; the
  bare flag for \<^verbatim>\<open>pull\<close>, which is set when it is true); a field that is not set contributes
  no token.
\<close>

theorem resolveCommandLine_tokens:
  "resolveCommandLine options =
     [''docker'', ''build'', ''--rm'']
     @ (if build_pull options = Some True then [''--pull''] else [])
     @ (case build_dockerfile options of None \<Rightarrow> [] | Some f \<Rightarrow> [''-f'', f])
     @ (case build_args options of
          None \<Rightarrow> []
        | Some kvs \<Rightarrow> concat (map (\<lambda>(k, v). [''--build-arg'', k @ ''='' @ v]) kvs))
     @ (case build_labels options of
          None \<Rightarrow> []
        | Some kvs \<Rightarrow> concat (map (\<lambda>(k, v). [''--label'', k @ ''='' @ v]) kvs))
     @ (case build_tag options of None \<Rightarrow> [] | Some t \<Rightarrow> [''-t'', t])
     @ (case build_target options of None \<Rightarrow> [] | Some t \<Rightarrow> [''--target'', t])
     @ (case build_context options of None \<Rightarrow> [] | Some c \<Rightarrow> [c])"
  by (simp add: resolveCommandLine_def buildShellQuotedStrings_def withQuotedArg_def
      withNamedArg_def withKeyValueArgs_def withFlagArg_def create_def split: option.splits)

text \<open>The two examples of the specification: no \<^verbatim>\<open>-f\<close> token without a Dockerfile.\<close>

lemma resolveCommandLine_examples:
  "resolveCommandLine (no_build_options\<lparr>build_context := Some ''.''\<rparr>) =
     [''docker'', ''build'', ''--rm'', ''.'']"
  "resolveCommandLine
     (no_build_options\<lparr>build_dockerfile := Some ''Dockerfile'', build_context := Some ''.''\<rparr>) =
     [''docker'', ''build'', ''--rm'', ''-f'', ''Dockerfile'', ''.'']"
  by (simp_all add: resolveCommandLine_def buildShellQuotedStrings_def withQuotedArg_def
      withNamedArg_def withKeyValueArgs_def withFlagArg_def create_def no_build_options_def)

section \<open>Properties of the resolution of run options\<close>

text \<open>
  Whatever the workspace, a resolution that succeeds leaves in the entry point and the command
  the keep-alive program of Windows when the field was set or the target is Windows, and that of
  Linux otherwise.
\<close>

lemma defaults_fields:
  "run_entrypoint (resolveDockerRunOptions_defaults appName cache runOptions) =
     Some (if truthy (run_entrypoint runOptions) \<or> run_os runOptions = Some Windows
           then ''ping'' else ''tail'')"
  "run_command (resolveDockerRunOptions_defaults appName cache runOptions) =
     Some (if truthy (run_command runOptions) \<or> run_os runOptions = Some Windows
           then ''-t localhost'' else ''-f /dev/null'')"
  "run_os (resolveDockerRunOptions_defaults appName cache runOptions) =
     Some (case run_os runOptions of None \<Rightarrow> Linux | Some os \<Rightarrow> os)"
  by (auto simp: resolveDockerRunOptions_defaults_def Let_def split: option.splits)

lemma env_fields:
  "run_entrypoint (resolveDockerRunOptions_env ssl userSecrets runOptions) = run_entrypoint runOptions"
  "run_command (resolveDockerRunOptions_env ssl userSecrets runOptions) = run_command runOptions"
  "run_os (resolveDockerRunOptions_env ssl userSecrets runOptions) = run_os runOptions"
  by (simp_all add: resolveDockerRunOptions_env_def Let_def)

lemma resolveDockerRunOptions_entrypoint:
  assumes "resolveDockerRunOptions h folder tc runOptions helperOptions = Inr (resolved, tc')"
  shows "run_entrypoint resolved =
           Some (if truthy (run_entrypoint runOptions) \<or> run_os runOptions = Some Windows
                 then ''ping'' else ''tail'')"
    and "run_command resolved =
           Some (if truthy (run_command runOptions) \<or> run_os runOptions = Some Windows
                 then ''-t localhost'' else ''-f /dev/null'')"
    and "run_os resolved = Some (case run_os runOptions of None \<Rightarrow> Linux | Some os \<Rightarrow> os)"
proof -
  from assms obtain appName cache ssl userSecrets volumes where
    "resolved = (resolveDockerRunOptions_env ssl userSecrets
                   (resolveDockerRunOptions_defaults appName cache runOptions))
                \<lparr>run_volumes := Some volumes\<rparr>"
    unfolding resolveDockerRunOptions_def Let_def ebind_Inr by blast
  then show "run_entrypoint resolved =
           Some (if truthy (run_entrypoint runOptions) \<or> run_os runOptions = Some Windows
                 then ''ping'' else ''tail'')"
    and "run_command resolved =
           Some (if truthy (run_command runOptions) \<or> run_os runOptions = Some Windows
                 then ''-t localhost'' else ''-f /dev/null'')"
    and "run_os resolved = Some (case run_os runOptions of None \<Rightarrow> Linux | Some os \<Rightarrow> os)"
    by (simp_all add: defaults_fields env_fields)
qed

text \<open>On the example workspace every resolution succeeds.\<close>

lemma inferSsl_total: "\<exists>b. inferSsl h folder helperOptions = Inr b"
  by (auto simp: inferSsl_def split: sum.splits bool.splits)

lemma plain_host_inferVolumes:
  "\<exists>volumes. inferVolumes plain_host folder runOptions myapp_options ssl userSecrets = Inr volumes"
  by (simp add: inferVolumes_def Let_def myapp_options_def plain_host_fields)

lemma plain_host_resolves:
  "\<exists>resolved tc'.
     resolveDockerRunOptions plain_host example_folder tc runOptions (Some myapp_options)
       = Inr (resolved, tc')"
proof -
  have project: "inferAppProject plain_host example_folder myapp_options = Inr ''/ws/myapp/myapp.csproj''"
    by (simp add: inferAppProject_def myapp_options_def truthy_def resolve_absolute_project)
  have same: "myapp_options\<lparr>appProject := Some ''/ws/myapp/myapp.csproj''\<rparr> = myapp_options"
    by (simp add: myapp_options_def)
  obtain ssl where ssl: "inferSsl plain_host example_folder myapp_options = Inr ssl"
    using inferSsl_total by blast
  have "\<exists>b. userSecrets_for plain_host example_folder myapp_options ssl = Inr b"
    by (auto simp: userSecrets_for_def inferUserSecrets_def myapp_options_def plain_host_fields ebind_def)
  then obtain userSecrets where
    userSecrets: "userSecrets_for plain_host example_folder myapp_options ssl = Inr userSecrets"
    by blast
  have "\<exists>n. inferAppName plain_host example_folder myapp_options = Inr n"
    by (simp add: inferAppName_def myapp_options_def)
  then obtain appName where appName: "inferAppName plain_host example_folder myapp_options = Inr appName"
    by blast
  have none: "configureSsl myapp_options = None"
    by (simp add: myapp_options_def)
  obtain volumes where volumes:
    "inferVolumes plain_host example_folder
       (resolveDockerRunOptions_env ssl userSecrets
          (resolveDockerRunOptions_defaults appName (tc ''/ws/myapp/myapp.csproj'') runOptions))
       myapp_options ssl userSecrets = Inr volumes"
    using plain_host_inferVolumes by blast
  show ?thesis
    by (simp add: resolveDockerRunOptions_def project same appName ssl none userSecrets volumes
        ebind_def Let_def)
qed

text \<open>
  C5 fails on the code.  A run definition for Linux whose entry point and command the user has
  set to \<^verbatim>\<open>dotnet\<close> and \<^verbatim>\<open>myapp.dll\<close> is resolved to the entry point \<^verbatim>\<open>ping\<close> and the
  command \<^verbatim>\<open>-t localhost\<close>: the user's values are replaced, by the defaults of the other
  platform.
\<close>

theorem resolveDockerRunOptions_replaces_user_entrypoint:
  "case resolveDockerRunOptions plain_host example_folder Map.empty
          (no_run_options\<lparr>run_entrypoint := Some ''dotnet'', run_command := Some ''myapp.dll'',
                            run_os := Some Linux\<rparr>)
          (Some myapp_options) of
     Inl _ \<Rightarrow> False
   | Inr (resolved, _) \<Rightarrow>
       run_entrypoint resolved = Some ''ping'' \<and> run_command resolved = Some ''-t localhost'' \<and>
       run_os resolved = Some Linux"
proof -
  let ?input = "no_run_options\<lparr>run_entrypoint := Some ''dotnet'', run_command := Some ''myapp.dll'',
                            run_os := Some Linux\<rparr>"
  obtain resolved tc' where r:
    "resolveDockerRunOptions plain_host example_folder Map.empty ?input (Some myapp_options)
       = Inr (resolved, tc')"
    using plain_host_resolves by blast
  show ?thesis
    using resolveDockerRunOptions_entrypoint [OF r]
    by (simp add: r truthy_def)
qed


text \<open>
  C4 fails on the code.  Resolving the empty run definition gives the entry point \<^verbatim>\<open>tail\<close>
  and the command \<^verbatim>\<open>-f /dev/null\<close>; resolving the result again, in the same workspace and
  with the same helper options, gives \<^verbatim>\<open>ping\<close> and \<^verbatim>\<open>-t localhost\<close>.
\<close>

theorem resolveDockerRunOptions_twice_differs:
  "case resolveDockerRunOptions plain_host example_folder Map.empty no_run_options
          (Some myapp_options) of
     Inl _ \<Rightarrow> False
   | Inr (once, tc1) \<Rightarrow>
       (case resolveDockerRunOptions plain_host example_folder tc1 once (Some myapp_options) of
          Inl _ \<Rightarrow> False
        | Inr (twice, _) \<Rightarrow>
            run_entrypoint once = Some ''tail'' \<and> run_entrypoint twice = Some ''ping'' \<and>
            run_command once = Some ''-f /dev/null'' \<and> run_command twice = Some ''-t localhost'' \<and>
            run_os once = Some Linux \<and> run_os twice = Some Linux \<and> twice \<noteq> once)"
proof -
  obtain once tc1 where r1:
    "resolveDockerRunOptions plain_host example_folder Map.empty no_run_options (Some myapp_options)
       = Inr (once, tc1)"
    using plain_host_resolves by blast
  obtain twice tc2 where r2:
    "resolveDockerRunOptions plain_host example_folder tc1 once (Some myapp_options)
       = Inr (twice, tc2)"
    using plain_host_resolves by blast
  have once: "run_entrypoint once = Some ''tail''" "run_command once = Some ''-f /dev/null''"
      "run_os once = Some Linux"
    using resolveDockerRunOptions_entrypoint [OF r1]
    by (simp_all add: no_run_options_def truthy_def)
  have twice: "run_entrypoint twice = Some ''ping''" "run_command twice = Some ''-t localhost''"
      "run_os twice = Some Linux"
    using resolveDockerRunOptions_entrypoint [OF r2]
    by (simp_all add: once truthy_def)
  have "twice \<noteq> once"
    using once(1) twice(1) by auto
  then show ?thesis
    by (simp add: r1 r2 once twice)
qed

section \<open>Properties of the user-secrets inference\<close>

text \<open>
  The search the sources perform with \<^verbatim>\<open>/pat/i.test\<close> is the specification's "contains
  the token in any character case".
\<close>

lemma match_here_ci_prefix:
  "match_here_ci pat s \<longleftrightarrow> prefix (map canonicalize pat) (map canonicalize s)"
  by (induction pat s rule: match_here_ci.induct) simp_all

lemma match_here_imp_test: "match_here_ci pat s \<Longrightarrow> regex_test_ci pat s"
  by (cases s) simp_all

lemma regex_test_ci_contains: "regex_test_ci pat s \<longleftrightarrow> contains_token_ci pat s"
proof
  assume "regex_test_ci pat s"
  then show "contains_token_ci pat s"
  proof (induction s)
    case Nil
    then have "pat = []" by (simp add: match_here_ci_prefix)
    then show ?case by (simp add: contains_token_ci_def)
  next
    case (Cons x xs)
    show ?case
    proof (cases "match_here_ci pat (x # xs)")
      case True
      then obtain rest where rest: "map canonicalize (x # xs) = map canonicalize pat @ rest"
        by (auto simp: match_here_ci_prefix prefix_def)
      have "map canonicalize (take (length pat) (x # xs)) =
              take (length pat) (map canonicalize (x # xs))"
        by (rule take_map [symmetric])
      also have "\<dots> = take (length pat) (map canonicalize pat @ rest)"
        by (simp only: rest)
      also have "\<dots> = map canonicalize pat"
        by simp
      finally have "map canonicalize (take (length pat) (x # xs)) = map canonicalize pat" .
      moreover have "x # xs = [] @ take (length pat) (x # xs) @ drop (length pat) (x # xs)"
        by simp
      ultimately show ?thesis
        unfolding contains_token_ci_def by blast
    next
      case False
      with Cons.prems have "regex_test_ci pat xs" by simp
      then obtain pre t post where "xs = pre @ t @ post" "map canonicalize t = map canonicalize pat"
        using Cons.IH by (auto simp: contains_token_ci_def)
      then have "x # xs = (x # pre) @ t @ post \<and> map canonicalize t = map canonicalize pat"
        by simp
      then show ?thesis unfolding contains_token_ci_def by blast
    qed
  qed
next
  assume "contains_token_ci pat s"
  then obtain pre t post where s: "s = pre @ t @ post" and t: "map canonicalize t = map canonicalize pat"
    by (auto simp: contains_token_ci_def)
  have "match_here_ci pat (t @ post)"
    by (simp add: match_here_ci_prefix t [symmetric])
  then have "regex_test_ci pat (t @ post)"
    by (rule match_here_imp_test)
  then have "regex_test_ci pat (pre @ t @ post)"
    by (induction pre) simp_all
  then show "regex_test_ci pat s" by (simp add: s)
qed

text \<open>
  C6.  When the project file contains the token \<^verbatim>\<open>UserSecretsId\<close> in any character case,
  user secrets are inferred: \<^verbatim>\<open>inferUserSecrets\<close> of the task helper returns true, and so
  does the constant \<^verbatim>\<open>userSecrets\<close> of \<^verbatim>\<open>resolveDockerRunOptions\<close> when SSL is false;
  the provider's \<^verbatim>\<open>inferUserSecrets\<close> returns true for SSL false.  And whenever SSL is true,
  user secrets are true, in the task helper and in the provider, whatever the project file holds.
\<close>

theorem user_secrets_inferred_from_token:
  assumes "contains_token_ci ''UserSecretsId'' contents"
  shows "(appProject helperOptions = Some project \<and> readFile h project = Inr contents \<longrightarrow>
            inferUserSecrets h folder helperOptions = Inr True \<and>
            userSecrets_for h folder helperOptions False = Inr True) \<and>
         userSecrets_for h folder helperOptions True = Inr True \<and>
         (fileExists pr project \<and> fsProvider_readFile pr project = Inr contents \<longrightarrow>
            inferUserSecrets_debug pr False project = Inr (Some True)) \<and>
         inferUserSecrets_debug pr True project = Inr (Some True)"
  using assms
  by (simp add: inferUserSecrets_def userSecrets_for_def inferUserSecrets_debug_def ebind_def
      UserSecretsRegex_test_def regex_test_ci_contains)

theorem user_secrets_inferred_from_token_witness:
  "contains_token_ci ''UserSecretsId'' ''<usersecretsid>1'' \<and>
   inferSsl secrets_host example_folder myapp_options = Inr False \<and>
   inferUserSecrets secrets_host example_folder myapp_options = Inr True \<and>
   userSecrets_for secrets_host example_folder myapp_options False = Inr True \<and>
   inferUserSecrets_debug (posix_providers secrets_files [''/ws/myapp'']) False
     ''/ws/myapp/myapp.csproj'' = Inr (Some True)"
proof -
  have token: "contains_token_ci ''UserSecretsId'' ''<usersecretsid>1''"
    unfolding regex_test_ci_contains [symmetric] by (simp add: canonicalize_def upper_letters_def lower_letters_def)
  have ssl: "inferSsl secrets_host example_folder myapp_options = Inr False"
    by (simp add: inferSsl_def inferSsl_try_def secrets_host_def posix_host_def myapp_options_def
        secrets_files_def launchSettings_path)
  show ?thesis
    using token ssl
      user_secrets_inferred_from_token [OF token, where helperOptions = myapp_options
        and project = "''/ws/myapp/myapp.csproj''" and h = secrets_host
        and pr = "posix_providers secrets_files [''/ws/myapp'']" and folder = example_folder]
    by (simp add: myapp_options_def secrets_host_def posix_host_def secrets_files_def
        posix_providers_def)
qed

section \<open>Properties of the default image tags\<close>

text \<open>
  The application name of some project files: only the first white-space character goes, the
  no-break space is one, and the capital letters beyond ASCII are lowered too.
\<close>

lemma application_name_examples:
  "toLowerCase (remove_first_whitespace ''My App'') = ''myapp''"
  "toLowerCase (remove_first_whitespace ''My Web App'') = ''myweb app''"
  "toLowerCase (remove_first_whitespace ([CHR 0xC9] @ ''cole'' @ [CHR 0xA0] @ ''App'')) =
     [CHR 0xE9] @ ''coleapp''"
  by (simp_all add: toLowerCase_def upper_letters_def lower_letters_def isWhiteSpace_def)




section \<open>Properties of the SSL inference\<close>

lemma inferSsl_cases:
  "inferSsl h folder helperOptions =
     Inr (inferSsl_try h folder helperOptions = Inr True)"
  by (auto simp: inferSsl_def split: sum.splits bool.splits)

lemma inferSsl_debug_cases:
  "inferSsl_debug h pr debugConfiguration projectFile =
     Inr (case dc_configureAspNetCoreSsl debugConfiguration of
            Some b \<Rightarrow> b
          | None \<Rightarrow> inferSsl_debug_try h pr projectFile = Inr True)"
  by (auto simp: inferSsl_debug_def split: sum.splits bool.splits option.splits)

lemma has_https_True:
  assumes "launchSettings_has_https launchSettings = Inr True"
  shows "\<exists>profiles profile url.
           js_get launchSettings ''profiles'' = Inr (Some profiles) \<and>
           find_project_profile (object_values profiles) = Inr (Some profile) \<and>
           js_get profile ''applicationUrl'' = Inr (Some url) \<and>
           regex_test_ci ''https://'' (js_ToString url)"
  using assms
  by (auto simp: launchSettings_has_https_def ebind_def split: if_splits option.splits sum.splits)

lemma inferSsl_try_True:
  assumes "inferSsl_try h folder helperOptions = Inr True"
  shows "\<exists>project launchSettings.
           appProject helperOptions = Some project \<and>
           readJson h (path_join h [path_dirname h project, ''Properties'', ''launchSettings.json''])
             = Inr launchSettings \<and>
           launchSettings_has_https launchSettings = Inr True"
  using assms
  by (auto simp: inferSsl_try_def Let_def ebind_def split: option.splits if_splits sum.splits)

lemma configureSsl_irrelevant:
  "inferAppProject h folder (helperOptions\<lparr>configureSsl := x\<rparr>) = inferAppProject h folder helperOptions"
  "inferAppName h folder (helperOptions\<lparr>configureSsl := x, appProject := p\<rparr>) =
     inferAppName h folder (helperOptions\<lparr>appProject := p\<rparr>)"
  "userSecrets_for h folder (helperOptions\<lparr>configureSsl := x, appProject := p\<rparr>) ssl =
     userSecrets_for h folder (helperOptions\<lparr>appProject := p\<rparr>) ssl"
  "inferVolumes h folder runOptions (helperOptions\<lparr>configureSsl := x, appProject := p\<rparr>) ssl userSecrets =
     inferVolumes h folder runOptions (helperOptions\<lparr>appProject := p\<rparr>) ssl userSecrets"
  by (simp_all add: inferAppProject_def inferAppName_def userSecrets_for_def inferUserSecrets_def
      inferVolumes_def)

lemma failed_ssl_inference_is_ssl_off:
  assumes project: "inferAppProject h folder helperOptions = Inr project"
    and unset: "configureSsl helperOptions = None"
    and fails: "inferSsl_try h folder (helperOptions\<lparr>appProject := Some project\<rparr>) = Inl e"
  shows "resolveDockerRunOptions h folder tc runOptions (Some helperOptions) =
         resolveDockerRunOptions h folder tc runOptions
           (Some (helperOptions\<lparr>configureSsl := Some False\<rparr>))"
proof -
  have ssl: "inferSsl h folder (helperOptions\<lparr>appProject := Some project\<rparr>) = Inr False"
    by (simp add: inferSsl_cases fails)
  have swap: "helperOptions\<lparr>configureSsl := Some False, appProject := Some project\<rparr> =
              helperOptions\<lparr>appProject := Some project\<rparr>\<lparr>configureSsl := Some False\<rparr>"
    by simp
  show ?thesis
    unfolding resolveDockerRunOptions_def
    by (simp add: project unset ssl configureSsl_irrelevant ebind_def Let_def split: sum.splits)
qed

lemma resolution_proceeds:
  assumes project: "inferAppProject h folder helperOptions = Inr project"
    and readable: "readFile h project = Inr contents"
    and programFiles: "os_platform h = win32 \<longrightarrow> env_ProgramFiles h \<noteq> None"
  shows "\<exists>resolved tc'.
           resolveDockerRunOptions h folder tc runOptions (Some helperOptions) = Inr (resolved, tc')"
proof -
  let ?ho = "helperOptions\<lparr>appProject := Some project\<rparr>"
  obtain appName where appName: "inferAppName h folder ?ho = Inr appName"
    by (simp add: inferAppName_def)
  obtain ssl where ssl:
    "(case configureSsl helperOptions of Some b \<Rightarrow> Inr b | None \<Rightarrow> inferSsl h folder ?ho) = Inr ssl"
    by (cases "configureSsl helperOptions") (simp_all add: inferSsl_cases)
  have "\<exists>b. userSecrets_for h folder ?ho ssl = Inr b"
    by (auto simp: userSecrets_for_def inferUserSecrets_def readable ebind_def)
  then obtain userSecrets where userSecrets: "userSecrets_for h folder ?ho ssl = Inr userSecrets"
    by blast
  have "\<exists>volumes. inferVolumes h folder ro ?ho ssl userSecrets = Inr volumes" for ro
    using programFiles by (simp add: inferVolumes_def Let_def)
  then obtain volumes where volumes:
    "inferVolumes h folder
       (resolveDockerRunOptions_env ssl userSecrets
          (resolveDockerRunOptions_defaults appName (tc project) runOptions))
       ?ho ssl userSecrets = Inr volumes"
    by blast
  show ?thesis
    by (simp add: resolveDockerRunOptions_def project appName ssl userSecrets volumes ebind_def
        Let_def)
qed

text \<open>
  C8.  The SSL inference of the task helper and of the debug provider always returns a
  boolean, never an error: true exactly when the inspection of the launch settings returned
  true, false in every other case.  In particular it is false when the launch settings cannot
  be read or parsed, and it is true only if the settings have a profile with the command name
  \<^verbatim>\<open>Project\<close> whose \<^verbatim>\<open>applicationUrl\<close> contains \<^verbatim>\<open>https://\<close>.  The enclosing resolution
  proceeds: when the inspection fails, \<^verbatim>\<open>resolveDockerRunOptions\<close> returns what it returns
  with SSL switched off by the user, and it returns a result whenever the project is found, the
  project file is readable and the NuGet fallback folder can be located.
\<close>

theorem ssl_inference_never_fails:
  "inferSsl h folder helperOptions = Inr (inferSsl_try h folder helperOptions = Inr True) \<and>
   inferSsl_debug h pr debugConfiguration projectFile =
     Inr (case dc_configureAspNetCoreSsl debugConfiguration of
            Some b \<Rightarrow> b
          | None \<Rightarrow> inferSsl_debug_try h pr projectFile = Inr True) \<and>
   (appProject helperOptions = Some project \<and>
    readJson h (path_join h [path_dirname h project, ''Properties'', ''launchSettings.json'']) = Inl e
      \<longrightarrow> inferSsl h folder helperOptions = Inr False) \<and>
   (inferSsl h folder helperOptions = Inr True \<longrightarrow>
      (\<exists>project launchSettings profiles profile url.
         appProject helperOptions = Some project \<and>
         readJson h (path_join h [path_dirname h project, ''Properties'', ''launchSettings.json''])
           = Inr launchSettings \<and>
         js_get launchSettings ''profiles'' = Inr (Some profiles) \<and>
         find_project_profile (object_values profiles) = Inr (Some profile) \<and>
         js_get profile ''applicationUrl'' = Inr (Some url) \<and>
         regex_test_ci ''https://'' (js_ToString url))) \<and>
   (inferAppProject h folder helperOptions = Inr resolvedProject \<and>
    configureSsl helperOptions = None \<and>
    inferSsl_try h folder (helperOptions\<lparr>appProject := Some resolvedProject\<rparr>) = Inl e'
      \<longrightarrow> resolveDockerRunOptions h folder tc runOptions (Some helperOptions) =
          resolveDockerRunOptions h folder tc runOptions
            (Some (helperOptions\<lparr>configureSsl := Some False\<rparr>))) \<and>
   (inferAppProject h folder helperOptions = Inr resolvedProject \<and>
    readFile h resolvedProject = Inr contents \<and>
    (os_platform h = win32 \<longrightarrow> env_ProgramFiles h \<noteq> None)
      \<longrightarrow> (\<exists>resolved tc'.
            resolveDockerRunOptions h folder tc runOptions (Some helperOptions) = Inr (resolved, tc')))"
proof (intro conjI impI)
  show "inferSsl h folder helperOptions = Inr (inferSsl_try h folder helperOptions = Inr True)"
    by (rule inferSsl_cases)
  show "inferSsl_debug h pr debugConfiguration projectFile =
     Inr (case dc_configureAspNetCoreSsl debugConfiguration of
            Some b \<Rightarrow> b
          | None \<Rightarrow> inferSsl_debug_try h pr projectFile = Inr True)"
    by (rule inferSsl_debug_cases)
next
  assume "appProject helperOptions = Some project \<and>
    readJson h (path_join h [path_dirname h project, ''Properties'', ''launchSettings.json'']) = Inl e"
  then have "inferSsl_try h folder helperOptions \<noteq> Inr True"
    by (simp add: inferSsl_try_def Let_def ebind_def)
  then show "inferSsl h folder helperOptions = Inr False"
    by (simp add: inferSsl_cases)
next
  assume "inferSsl h folder helperOptions = Inr True"
  then have "inferSsl_try h folder helperOptions = Inr True"
    by (simp add: inferSsl_cases)
  then show "\<exists>project launchSettings profiles profile url.
         appProject helperOptions = Some project \<and>
         readJson h (path_join h [path_dirname h project, ''Properties'', ''launchSettings.json''])
           = Inr launchSettings \<and>
         js_get launchSettings ''profiles'' = Inr (Some profiles) \<and>
         find_project_profile (object_values profiles) = Inr (Some profile) \<and>
         js_get profile ''applicationUrl'' = Inr (Some url) \<and>
         regex_test_ci ''https://'' (js_ToString url)"
    using inferSsl_try_True has_https_True by blast
next
  assume "inferAppProject h folder helperOptions = Inr resolvedProject \<and>
    configureSsl helperOptions = None \<and>
    inferSsl_try h folder (helperOptions\<lparr>appProject := Some resolvedProject\<rparr>) = Inl e'"
  then show "resolveDockerRunOptions h folder tc runOptions (Some helperOptions) =
          resolveDockerRunOptions h folder tc runOptions
            (Some (helperOptions\<lparr>configureSsl := Some False\<rparr>))"
    using failed_ssl_inference_is_ssl_off by blast
next
  assume "inferAppProject h folder helperOptions = Inr resolvedProject \<and>
    readFile h resolvedProject = Inr contents \<and>
    (os_platform h = win32 \<longrightarrow> env_ProgramFiles h \<noteq> None)"
  then show "\<exists>resolved tc'.
            resolveDockerRunOptions h folder tc runOptions (Some helperOptions) = Inr (resolved, tc')"
    using resolution_proceeds by blast
qed

lemma https_settings_has_https: "launchSettings_has_https https_settings = Inr True"
  by (simp add: launchSettings_has_https_def https_settings_def ebind_def canonicalize_def upper_letters_def lower_letters_def)

theorem ssl_inference_never_fails_witness:
  "inferSsl_try broken_settings_host example_folder myapp_options =
     Inl (Error ''Unexpected token in JSON: /ws/myapp/Properties/launchSettings.json'') \<and>
   inferSsl broken_settings_host example_folder myapp_options = Inr False \<and>
   resolveDockerRunOptions broken_settings_host example_folder Map.empty no_run_options
     (Some myapp_options) =
   resolveDockerRunOptions broken_settings_host example_folder Map.empty no_run_options
     (Some (myapp_options\<lparr>configureSsl := Some False\<rparr>)) \<and>
   (\<exists>resolved tc'.
      resolveDockerRunOptions broken_settings_host example_folder Map.empty no_run_options
        (Some myapp_options) = Inr (resolved, tc')) \<and>
   inferSsl https_host example_folder myapp_options = Inr True"
proof -
  have project: "inferAppProject broken_settings_host example_folder myapp_options =
      Inr ''/ws/myapp/myapp.csproj''"
    by (simp add: inferAppProject_def myapp_options_def truthy_def resolve_absolute_project)
  have same: "myapp_options\<lparr>appProject := Some ''/ws/myapp/myapp.csproj''\<rparr> = myapp_options"
    "appProject myapp_options = Some ''/ws/myapp/myapp.csproj''" "configureSsl myapp_options = None"
    by (simp_all add: myapp_options_def)
  have broken: "inferSsl_try broken_settings_host example_folder myapp_options =
     Inl (Error ''Unexpected token in JSON: /ws/myapp/Properties/launchSettings.json'')"
    by (simp add: inferSsl_try_def same broken_settings_host_fields launchSettings_path ebind_def)
  have https: "inferSsl https_host example_folder myapp_options = Inr True"
    by (simp add: inferSsl_cases inferSsl_try_def same https_host_fields launchSettings_path
        ebind_def https_settings_has_https)
  have broken': "inferSsl_try broken_settings_host example_folder
      (myapp_options\<lparr>appProject := Some ''/ws/myapp/myapp.csproj''\<rparr>) =
     Inl (Error ''Unexpected token in JSON: /ws/myapp/Properties/launchSettings.json'')"
    by (simp only: same broken)
  have unreadable: "readJson broken_settings_host
      (path_join broken_settings_host
         [path_dirname broken_settings_host ''/ws/myapp/myapp.csproj'', ''Properties'',
          ''launchSettings.json'']) =
     Inl (Error ''Unexpected token in JSON: /ws/myapp/Properties/launchSettings.json'')"
    by (simp add: broken_settings_host_fields launchSettings_path)
  have readable: "readFile broken_settings_host ''/ws/myapp/myapp.csproj'' = Inr ''<Project/>''"
    by (simp add: broken_settings_host_fields)
  have platform: "os_platform broken_settings_host \<noteq> win32"
    by (simp add: broken_settings_host_fields)
  note at_broken =
      ssl_inference_never_fails [where h = broken_settings_host and folder = example_folder
        and helperOptions = myapp_options and project = "''/ws/myapp/myapp.csproj''"
        and e = "Error ''Unexpected token in JSON: /ws/myapp/Properties/launchSettings.json''"
        and e' = "Error ''Unexpected token in JSON: /ws/myapp/Properties/launchSettings.json''"
        and resolvedProject = "''/ws/myapp/myapp.csproj''" and contents = "''<Project/>''"
        and tc = Map.empty and runOptions = no_run_options]
  note at_https =
      ssl_inference_never_fails [where h = https_host and folder = example_folder
        and helperOptions = myapp_options]
  have "inferSsl broken_settings_host example_folder myapp_options = Inr False"
    using at_broken same(2) unreadable by blast
  moreover have "resolveDockerRunOptions broken_settings_host example_folder Map.empty no_run_options
     (Some myapp_options) =
   resolveDockerRunOptions broken_settings_host example_folder Map.empty no_run_options
     (Some (myapp_options\<lparr>configureSsl := Some False\<rparr>))"
    using at_broken project same(3) broken' by blast
  moreover have "\<exists>resolved tc'.
      resolveDockerRunOptions broken_settings_host example_folder Map.empty no_run_options
        (Some myapp_options) = Inr (resolved, tc')"
    using at_broken project readable platform by blast
  moreover have "inferSsl https_host example_folder myapp_options = Inr True"
    using at_https https by blast
  ultimately show ?thesis
    using broken by blast
qed

section \<open>Properties of the debug configuration provider\<close>

lemma names_quoted: "names (Error (a @ quote @ path @ quote @ b)) path"
proof -
  have "sublist path ((a @ quote) @ path @ (quote @ b))"
    by (rule sublist_appendI)
  then show ?thesis by (simp add: names_def)
qed

lemma names_tail:
  assumes "sublist s b"
  shows "names (Error (a @ quote @ path @ quote @ b)) s"
proof -
  from assms obtain ps ss where "b = ps @ s @ ss" by (auto simp: sublist_def)
  then have "a @ quote @ path @ quote @ b = (a @ quote @ path @ quote @ ps) @ s @ ss" by simp
  then have "sublist s (a @ quote @ path @ quote @ b)"
    by (simp only: sublist_appendI)
  then show ?thesis by (simp add: names_def)
qed

lemma folder_tail_names:
  "sublist ''appFolder'' ('' does not exist. Ensure that the 'appFolder' or 'appProject' property is set '' @
                ''correctly in the Docker debug configuration.'')"
  "sublist ''appProject'' ('' does not exist. Ensure that the 'appFolder' or 'appProject' property is set '' @
                ''correctly in the Docker debug configuration.'')"
  by (simp_all add: sublist_Cons_right)

lemma project_tail_names:
  "sublist ''appProject'' ('' does not exist. Ensure that the 'appFolder' or 'appProject' property is '' @
                         ''set correctly in the Docker debug configuration.'')"
  by (simp add: sublist_Cons_right)

lemma unable_names:
  "names (Error (''Unable to infer the application project file. Set either the 'appFolder' '' @
                 ''or 'appProject' property in the Docker debug configuration.'')) ''appFolder''"
  "names (Error (''Unable to infer the application project file. Set either the 'appFolder' '' @
                 ''or 'appProject' property in the Docker debug configuration.'')) ''appProject''"
  by (simp_all add: names_def sublist_Cons_right)

lemma context_tail_names:
  "sublist ''context'' ('' does not exist. Ensure that the 'context' property is set correctly in the '' @
                ''Docker debug configuration.'')"
  by (simp add: sublist_Cons_right)

lemma dockerfile_tail_names:
  "sublist ''dockerfile'' ('' does not exist. Ensure that the 'dockerfile' property is set correctly in the '' @
                ''Docker debug configuration.'')"
  by (simp add: sublist_Cons_right)

lemma inferAppFolder_Inl:
  assumes "inferAppFolder h pr folder configuration = Inl e"
  shows "\<exists>path. \<not> dirExists pr path \<and> names e path \<and> names e ''appFolder'' \<and> names e ''appProject''"
proof -
  from assms obtain path where gone: "\<not> dirExists pr path"
    and e: "e = Error (''The application folder '' @ quote @ path @ quote @
                '' does not exist. Ensure that the 'appFolder' or 'appProject' property is set '' @
                ''correctly in the Docker debug configuration.'')"
    by (auto simp: inferAppFolder_def Let_def split: if_splits)
  show ?thesis
    using gone names_quoted names_tail [OF folder_tail_names(1)] names_tail [OF folder_tail_names(2)]
    unfolding e by blast
qed

lemma inferAppFolder_Inr:
  assumes "inferAppFolder h pr folder configuration = Inr (appFolder, resolvedAppFolder)"
  shows "dirExists pr resolvedAppFolder"
  using assms by (auto simp: inferAppFolder_def Let_def split: if_splits)

lemma inferAppProject_debug_Inl:
  assumes "inferAppProject_debug h pr folder configuration resolvedAppFolder = Inl e"
  shows "(\<exists>path. \<not> fileExists pr path \<and> names e path \<and> names e ''appProject'') \<or>
         (\<not> truthy (dc_appProject configuration) \<and>
          e = Error (''Unable to infer the application project file. Set either the 'appFolder' '' @
                     ''or 'appProject' property in the Docker debug configuration.'') \<and>
          names e ''appFolder'' \<and> names e ''appProject'') \<or>
         (\<not> truthy (dc_appProject configuration) \<and> readDir pr resolvedAppFolder = Inl e)"
proof -
  from assms consider
      (missing) path where "\<not> fileExists pr path"
        "e = Error (''The application project file '' @ quote @ path @ quote @
                         '' does not exist. Ensure that the 'appFolder' or 'appProject' property is '' @
                         ''set correctly in the Docker debug configuration.'')"
    | (unable) "\<not> truthy (dc_appProject configuration)"
        "e = Error (''Unable to infer the application project file. Set either the 'appFolder' '' @
                     ''or 'appProject' property in the Docker debug configuration.'')"
    | (unreadable) "\<not> truthy (dc_appProject configuration)" "readDir pr resolvedAppFolder = Inl e"
    by (auto simp: inferAppProject_debug_def ebind_def Let_def truthy_def
        split: if_splits sum.splits option.splits)
  then show ?thesis
  proof cases
    case missing
    then show ?thesis
      using names_quoted names_tail [OF project_tail_names] by blast
  next
    case unable
    then show ?thesis
      using unable_names by simp
  next
    case unreadable
    then show ?thesis by simp
  qed
qed

lemma inferAppProject_debug_Inr:
  assumes "inferAppProject_debug h pr folder configuration resolvedAppFolder =
             Inr (project, resolvedProject)"
  shows "fileExists pr resolvedProject"
  using assms
  by (auto simp: inferAppProject_debug_def ebind_def Let_def
      split: if_splits sum.splits option.splits)

lemma inferContext_Inl:
  assumes "inferContext h pr folder resolvedAppFolder configuration = Inl e"
  shows "\<exists>path. \<not> dirExists pr path \<and> names e path \<and> names e ''context''"
proof -
  from assms obtain path where gone: "\<not> dirExists pr path"
    and e: "e = Error (''The context folder '' @ quote @ path @ quote @
                '' does not exist. Ensure that the 'context' property is set correctly in the '' @
                ''Docker debug configuration.'')"
    by (auto simp: inferContext_def Let_def split: if_splits)
  show ?thesis
    using gone names_quoted names_tail [OF context_tail_names]
    unfolding e by blast
qed

lemma inferContext_Inr:
  assumes "inferContext h pr folder resolvedAppFolder configuration = Inr resolvedContext"
  shows "dirExists pr resolvedContext"
  using assms by (auto simp: inferContext_def Let_def split: if_splits)

lemma inferDockerfile_Inl:
  assumes "inferDockerfile h pr folder resolvedAppFolder configuration = Inl e"
  shows "\<exists>path. \<not> fileExists pr path \<and> names e path \<and> names e ''dockerfile''"
proof -
  from assms obtain path where gone: "\<not> fileExists pr path"
    and e: "e = Error (''The Dockerfile '' @ quote @ path @ quote @
                '' does not exist. Ensure that the 'dockerfile' property is set correctly in the '' @
                ''Docker debug configuration.'')"
    by (auto simp: inferDockerfile_def Let_def split: if_splits)
  show ?thesis
    using gone names_quoted names_tail [OF dockerfile_tail_names]
    unfolding e by blast
qed

lemma inferDockerfile_Inr:
  assumes "inferDockerfile h pr folder resolvedAppFolder configuration = Inr dockerfile"
  shows "fileExists pr dockerfile"
  using assms by (auto simp: inferDockerfile_def Let_def split: if_splits)


































section \<open>Properties of the persisted launch configurations\<close>

text \<open>
  C10.  When the persisted list holds a configuration of the same name,
  \<^verbatim>\<open>addDebugConfiguration\<close> returns false and the persisted section is unchanged.  Otherwise,
  when the host accepts the update, it returns true and the persisted list is the old list
  followed by the new configuration; when the host rejects the update, the rejection is
  passed on.
\<close>

theorem addDebugConfiguration_by_name:
  "((\<exists>c\<in>set (case configurations w of None \<Rightarrow> [] | Some cs \<Rightarrow> cs).
        launch_name c = launch_name debugConfiguration) \<longrightarrow>
      addDebugConfiguration debugConfiguration w = Inr (False, w)) \<and>
   (\<not> (\<exists>c\<in>set (case configurations w of None \<Rightarrow> [] | Some cs \<Rightarrow> cs).
        launch_name c = launch_name debugConfiguration) \<and> writable w \<longrightarrow>
      addDebugConfiguration debugConfiguration w =
        Inr (True, w\<lparr>configurations :=
                        Some ((case configurations w of None \<Rightarrow> [] | Some cs \<Rightarrow> cs) @
                              [debugConfiguration])\<rparr>)) \<and>
   (\<not> (\<exists>c\<in>set (case configurations w of None \<Rightarrow> [] | Some cs \<Rightarrow> cs).
        launch_name c = launch_name debugConfiguration) \<and> \<not> writable w \<longrightarrow>
      (\<exists>e. addDebugConfiguration debugConfiguration w = Inl e))"
  by (auto simp: addDebugConfiguration_def update_configurations_def ebind_def list_ex_iff
      split: option.splits)

theorem addDebugConfiguration_by_name_witness:
  "addDebugConfiguration (launch_entry ''Docker .NET Core Launch'' ''docker'')
     \<lparr>configurations = Some [launch_entry ''Docker .NET Core Launch'' ''coreclr''], writable = True\<rparr> =
     Inr (False,
          \<lparr>configurations = Some [launch_entry ''Docker .NET Core Launch'' ''coreclr''], writable = True\<rparr>) \<and>
   addDebugConfiguration (launch_entry ''Docker .NET Core Launch'' ''docker'')
     \<lparr>configurations = Some [launch_entry ''Launch Chrome'' ''chrome''], writable = True\<rparr> =
     Inr (True,
          \<lparr>configurations = Some [launch_entry ''Launch Chrome'' ''chrome'',
                                   launch_entry ''Docker .NET Core Launch'' ''docker''],
           writable = True\<rparr>) \<and>
   addDebugConfiguration (launch_entry ''Docker .NET Core Launch'' ''docker'')
     \<lparr>configurations = None, writable = True\<rparr> =
     Inr (True,
          \<lparr>configurations = Some [launch_entry ''Docker .NET Core Launch'' ''docker''],
           writable = True\<rparr>)"
  using
    addDebugConfiguration_by_name
      [of "\<lparr>configurations = Some [launch_entry ''Docker .NET Core Launch'' ''coreclr''], writable = True\<rparr>"
          "launch_entry ''Docker .NET Core Launch'' ''docker''"]
    addDebugConfiguration_by_name
      [of "\<lparr>configurations = Some [launch_entry ''Launch Chrome'' ''chrome''], writable = True\<rparr>"
          "launch_entry ''Docker .NET Core Launch'' ''docker''"]
    addDebugConfiguration_by_name
      [of "\<lparr>configurations = None, writable = True\<rparr>"
          "launch_entry ''Docker .NET Core Launch'' ''docker''"]
  by (simp add: launch_entry_def)


end
